theory Spec2Isabelle
  imports Complex_Main "HOL-Library.Multiset"
begin

section \<open>Data model\<close>

text \<open>
  The numbers of the program are JavaScript numbers. They are modelled as \<^typ>\<open>real\<close>:
  finite values with exact arithmetic. The rounding of a double, NaN and the infinities are
  outside the model. The endpoint measures in metres and the client in kilometres times
  1000; the two computations are kept apart: each evaluator is stated and proved with its
  own distance, and nothing that is proved of one evaluator is carried over to the other.
  The clock hour read by \<^verbatim>\<open>new Date().getHours()\<close> is a parameter \<open>hour\<close> of the
  functions that read it.
\<close>

datatype RiskLevel = Safe | At_risk | Emergency

text \<open>
  A row of the table \<^verbatim>\<open>risk_zones\<close>, which both evaluators read (the client casts the
  rows to its interface \<^verbatim>\<open>RiskZone\<close> unchecked). The field \<^verbatim>\<open>id\<close> is called
  \<open>zone_id\<close>; the two timestamps of a row are not read by any function modelled here and are
  left out. The column \<^verbatim>\<open>time_of_day_risk\<close> is \<^verbatim>\<open>JSONB DEFAULT '{}'\<close> and may be
  null: \<open>None\<close> is the null column, \<open>Some m\<close> an object whose values are numbers; a key
  that is absent from the object reads as \<^verbatim>\<open>undefined\<close>, which is \<open>m k = None\<close>.
\<close>

record RiskZone =
  zone_id :: string
  name :: "string option"
  latitude :: real
  longitude :: real
  radius_meters :: real
  risk_score :: real
  risk_level :: RiskLevel
  incident_count :: nat
  time_of_day_risk :: "(string \<rightharpoonup> real) option"
  description :: "string option"

text \<open>
  The client's evaluator returns \<^verbatim>\<open>{ level, score, zone }\<close>; the server's running result
  \<^verbatim>\<open>highestRisk\<close> has the same three fields and \<^verbatim>\<open>inZone\<close>.
\<close>

record RiskResult =
  level :: RiskLevel
  score :: real
  zone :: "RiskZone option"

record HighestRisk = RiskResult +
  inZone :: bool

section \<open>Geodesic distance\<close>

text \<open>\<^verbatim>\<open>Math.atan2(y, x)\<close> on finite numbers (the sign of a zero is not modelled).\<close>

definition atan2 :: "real \<Rightarrow> real \<Rightarrow> real" where
  "atan2 y x =
     (if 0 < x then arctan (y / x)
      else if x < 0 then (if 0 \<le> y then arctan (y / x) + pi else arctan (y / x) - pi)
      else if 0 < y then pi / 2
      else if y < 0 then - (pi / 2)
      else 0)"

text \<open>\<^verbatim>\<open>getDistanceInMeters\<close> of the endpoint \<^verbatim>\<open>check-risk-zone\<close>.\<close>

definition getDistanceInMeters :: "real \<Rightarrow> real \<Rightarrow> real \<Rightarrow> real \<Rightarrow> real" where
  "getDistanceInMeters lat1 lon1 lat2 lon2 =
     (let R = 6371000;
          phi1 = (lat1 * pi) / 180;
          phi2 = (lat2 * pi) / 180;
          dphi = ((lat2 - lat1) * pi) / 180;
          dlambda = ((lon2 - lon1) * pi) / 180;
          a = sin (dphi / 2) * sin (dphi / 2) +
              cos phi1 * cos phi2 * sin (dlambda / 2) * sin (dlambda / 2);
          c = 2 * atan2 (sqrt a) (sqrt (1 - a))
      in R * c)"

text \<open>\<^verbatim>\<open>deg2rad\<close> and \<^verbatim>\<open>getDistanceFromLatLonInKm\<close> of the client's location hook.\<close>

definition deg2rad :: "real \<Rightarrow> real" where
  "deg2rad deg = deg * (pi / 180)"

definition getDistanceFromLatLonInKm :: "real \<Rightarrow> real \<Rightarrow> real \<Rightarrow> real \<Rightarrow> real" where
  "getDistanceFromLatLonInKm lat1 lon1 lat2 lon2 =
     (let R = 6371;
          dLat = deg2rad (lat2 - lat1);
          dLon = deg2rad (lon2 - lon1);
          a = sin (dLat / 2) * sin (dLat / 2) +
              cos (deg2rad lat1) * cos (deg2rad lat2) * sin (dLon / 2) * sin (dLon / 2);
          c = 2 * atan2 (sqrt a) (sqrt (1 - a))
      in R * c)"

section \<open>Time of day\<close>

text \<open>\<^verbatim>\<open>hour >= 18 || hour < 6 ? 'night' : 'day'\<close>\<close>

definition timeOfDay :: "nat \<Rightarrow> string" where
  "timeOfDay hour = (if hour \<ge> 18 \<or> hour < 6 then ''night'' else ''day'')"

text \<open>
  \<^verbatim>\<open>v || d\<close> for a value \<open>v\<close> that is a number or \<^verbatim>\<open>undefined\<close> and a number \<open>d\<close>:
  \<^verbatim>\<open>undefined\<close> and \<open>0\<close> are falsy, so \<open>d\<close> is the result for both.
\<close>

definition js_or :: "real option \<Rightarrow> real \<Rightarrow> real" where
  "js_or v d = (case v of None \<Rightarrow> d | Some x \<Rightarrow> if x = 0 then d else x)"

text \<open>
  \<^verbatim>\<open>zone.time_of_day_risk?.[timeOfDay] || zone.risk_score\<close>, the \<^verbatim>\<open>timeRisk\<close> of the
  endpoint: the optional chaining gives \<^verbatim>\<open>undefined\<close> for a null mapping.
\<close>

definition timeRisk :: "nat \<Rightarrow> RiskZone \<Rightarrow> real" where
  "timeRisk hour z =
     js_or (case time_of_day_risk z of None \<Rightarrow> None | Some m \<Rightarrow> m (timeOfDay hour))
       (risk_score z)"

text \<open>
  \<^verbatim>\<open>zone.time_of_day_risk[timeOfDay] || zone.risk_score\<close>, the \<^verbatim>\<open>timeRisk\<close> of the
  client: reading a property of null raises a TypeError.
\<close>

datatype js_error = TypeError

definition client_timeRisk :: "nat \<Rightarrow> RiskZone \<Rightarrow> js_error + real" where
  "client_timeRisk hour z =
     (case time_of_day_risk z of
        None \<Rightarrow> Inl TypeError
      | Some m \<Rightarrow> Inr (js_or (m (timeOfDay hour)) (risk_score z)))"

section \<open>The zone loop of the endpoint check-risk-zone\<close>

definition initialRisk :: HighestRisk where
  "initialRisk = \<lparr>level = Safe, score = 0, zone = None, inZone = False\<rparr>"

text \<open>The body of the loop, for one zone.\<close>

definition server_step :: "nat \<Rightarrow> real \<Rightarrow> real \<Rightarrow> HighestRisk \<Rightarrow> RiskZone \<Rightarrow> HighestRisk" where
  "server_step hour lat lon highestRisk z =
     (let distance = getDistanceInMeters lat lon (latitude z) (longitude z) in
      if distance \<le> radius_meters z then
        (let tr = timeRisk hour z in
         if tr > score highestRisk
         then \<lparr>level = risk_level z, score = tr, zone = Some z, inZone = True\<rparr>
         else highestRisk)
      else if distance \<le> radius_meters z * 1.5 then
        (let approachingScore = risk_score z * 0.5 in
         if approachingScore > score highestRisk \<and> level highestRisk = Safe
         then \<lparr>level = At_risk, score = approachingScore, zone = Some z, inZone = False\<rparr>
         else highestRisk)
      else highestRisk)"

fun server_loop :: "nat \<Rightarrow> real \<Rightarrow> real \<Rightarrow> HighestRisk \<Rightarrow> RiskZone list \<Rightarrow> HighestRisk" where
  "server_loop hour lat lon highestRisk [] = highestRisk"
| "server_loop hour lat lon highestRisk (z # zs) =
     server_loop hour lat lon (server_step hour lat lon highestRisk z) zs"

definition server_evaluate :: "nat \<Rightarrow> real \<Rightarrow> real \<Rightarrow> RiskZone list \<Rightarrow> HighestRisk" where
  "server_evaluate hour lat lon riskZones = server_loop hour lat lon initialRisk riskZones"

section \<open>The client's checkRiskAtLocation\<close>

text \<open>
  The loop runs on the three variables \<^verbatim>\<open>highestRisk\<close>, \<^verbatim>\<open>highestScore\<close> and
  \<^verbatim>\<open>closestZone\<close>; the distance is \<^verbatim>\<open>getDistanceFromLatLonInKm(...) * 1000\<close>.
\<close>

definition client_step ::
  "nat \<Rightarrow> real \<Rightarrow> real \<Rightarrow> RiskLevel \<times> real \<times> RiskZone option \<Rightarrow> RiskZone
     \<Rightarrow> js_error + RiskLevel \<times> real \<times> RiskZone option" where
  "client_step hour lat lng st z =
     (case st of (highestRisk, highestScore, closestZone) \<Rightarrow>
      let distance = getDistanceFromLatLonInKm lat lng (latitude z) (longitude z) * 1000 in
      if distance \<le> radius_meters z then
        (case client_timeRisk hour z of
           Inl e \<Rightarrow> Inl e
         | Inr tr \<Rightarrow>
             if tr > highestScore then Inr (risk_level z, tr, Some z)
             else Inr (highestRisk, highestScore, closestZone))
      else if distance \<le> radius_meters z * 1.5 then
        (let approachingScore = risk_score z * 0.5 in
         if approachingScore > highestScore \<and> highestRisk = Safe
         then Inr (At_risk, approachingScore, Some z)
         else Inr (highestRisk, highestScore, closestZone))
      else Inr (highestRisk, highestScore, closestZone))"

text \<open>The exception leaves the loop: the zones after it are not visited.\<close>

fun client_loop ::
  "nat \<Rightarrow> real \<Rightarrow> real \<Rightarrow> RiskLevel \<times> real \<times> RiskZone option \<Rightarrow> RiskZone list
     \<Rightarrow> js_error + RiskLevel \<times> real \<times> RiskZone option" where
  "client_loop hour lat lng st [] = Inr st"
| "client_loop hour lat lng st (z # zs) =
     (case client_step hour lat lng st z of
        Inl e \<Rightarrow> Inl e
      | Inr st' \<Rightarrow> client_loop hour lat lng st' zs)"

definition checkRiskAtLocation ::
  "nat \<Rightarrow> RiskZone list \<Rightarrow> real \<Rightarrow> real \<Rightarrow> js_error + RiskResult" where
  "checkRiskAtLocation hour riskZones lat lng =
     (case client_loop hour lat lng (Safe, 0, None) riskZones of
        Inl e \<Rightarrow> Inl e
      | Inr (highestRisk, highestScore, closestZone) \<Rightarrow>
          Inr \<lparr>level = highestRisk, score = highestScore, zone = closestZone\<rparr>)"

section \<open>The evaluation of the specification\<close>

text \<open>
  The algorithm of the specification, in its words: a fold over the zones from the safe
  default. \<open>w\<close> gives a zone's time-weighted score and \<open>d\<close> its distance from the point.
\<close>

definition spec_default :: HighestRisk where
  "spec_default = \<lparr>level = Safe, score = 0, zone = None, inZone = False\<rparr>"

definition spec_step :: "(RiskZone \<Rightarrow> real) \<Rightarrow> (RiskZone \<Rightarrow> real) \<Rightarrow> HighestRisk \<Rightarrow> RiskZone \<Rightarrow> HighestRisk" where
  "spec_step w d r z =
     (if d z \<le> radius_meters z \<and> w z > score r
        then \<lparr>level = risk_level z, score = w z, zone = Some z, inZone = True\<rparr>
      else if radius_meters z < d z \<and> d z \<le> 1.5 * radius_meters z
              \<and> risk_score z * 0.5 > score r \<and> level r = Safe
        then \<lparr>level = At_risk, score = risk_score z * 0.5, zone = Some z, inZone = False\<rparr>
      else r)"

definition spec_evaluate :: "(RiskZone \<Rightarrow> real) \<Rightarrow> (RiskZone \<Rightarrow> real) \<Rightarrow> RiskZone list \<Rightarrow> HighestRisk" where
  "spec_evaluate w d zones = foldl (spec_step w d) spec_default zones"

text \<open>
  The time-of-day weighting of the specification, in its words: the override of the bucket
  when it is present, the base score otherwise (a zone without a mapping has no override).
\<close>

definition spec_bucket :: "nat \<Rightarrow> string" where
  "spec_bucket hour = (if hour \<ge> 18 \<or> hour < 6 then ''night'' else ''day'')"

definition spec_weighted_score :: "nat \<Rightarrow> RiskZone \<Rightarrow> real" where
  "spec_weighted_score hour z =
     (case time_of_day_risk z of
        None \<Rightarrow> risk_score z
      | Some m \<Rightarrow> (case m (spec_bucket hour) of Some v \<Rightarrow> v | None \<Rightarrow> risk_score z))"

text \<open>The mapping of the zone holds the override 0 for the bucket of the hour.\<close>

definition zero_override :: "nat \<Rightarrow> RiskZone \<Rightarrow> bool" where
  "zero_override hour z \<longleftrightarrow>
     (case time_of_day_risk z of None \<Rightarrow> False | Some m \<Rightarrow> m (spec_bucket hour) = Some 0)"

section \<open>The store and the runtime of the endpoints\<close>

text \<open>
  The endpoints talk to the store through the query builder. Each query of a handler is a
  field of \<open>Store\<close> that gives the answer of the store: \<open>Inl\<close> carries the
  \<^verbatim>\<open>error\<close> of the answer (its \<^verbatim>\<open>data\<close> is then null), \<open>Inr\<close> its \<^verbatim>\<open>data\<close>.
  The writes that a handler issues are returned as a list, in the order of the calls.
\<close>

datatype db_error = PostgrestError string

datatype AlertType = Sos | Risk_zone_entry | Auto_alert

datatype IncidentStatus = Active | Resolved | Pending

record Profile =
  profile_name :: string

record UserPreferences =
  auto_alert_on_risk_zone :: "bool option"

record EmergencyContact =
  ec_id :: string
  ec_user_id :: string
  ec_name :: string
  ec_phone :: string

text \<open>The object given to \<^verbatim>\<open>from('incidents').insert\<close>, and the row that comes back.\<close>

record IncidentInsert =
  user_id :: string
  inc_latitude :: real
  inc_longitude :: real
  alert_type :: AlertType
  inc_risk_level :: string
  status :: IncidentStatus
  inc_description :: "string option"

record Incident = IncidentInsert +
  inc_id :: string

text \<open>One element of \<^verbatim>\<open>alertsToCreate\<close>.\<close>

record AlertInsert =
  incident_id :: string
  contact_id :: "string option"
  sent_to_police :: bool
  message :: string
  al_latitude :: real
  al_longitude :: real

record Store =
  risk_zones_select :: "db_error + RiskZone list option"
  profiles_select :: "string \<Rightarrow> Profile option"
  user_preferences_select :: "string \<Rightarrow> UserPreferences option"
  emergency_contacts_select :: "string \<Rightarrow> db_error + EmergencyContact list"
  incidents_insert :: "IncidentInsert \<Rightarrow> db_error + Incident"
  alerts_insert :: "AlertInsert list \<Rightarrow> db_error option"

datatype db_write = InsertIncident IncidentInsert | InsertAlerts "AlertInsert list"

text \<open>
  What the handlers read from the JavaScript runtime: the clock
  (\<^verbatim>\<open>new Date().getHours()\<close>, \<^verbatim>\<open>new Date().toISOString()\<close>), the text of a number in
  a template string, and \<^verbatim>\<open>String.prototype.toUpperCase\<close>.
\<close>

record Runtime =
  getHours :: nat
  toISOString :: string
  numberToString :: "real \<Rightarrow> string"
  toUpperCase :: "string \<Rightarrow> string"

text \<open>
  A response is the JSON body with status 200, or the response of the \<^verbatim>\<open>catch\<close> block:
  status 500 with the body \<^verbatim>\<open>{ error: message }\<close> made from the error that was thrown.
\<close>

datatype 'a response = Ok200 'a | Error500 db_error

text \<open>The value of the enumeration as the string that JavaScript holds.\<close>

fun risk_level_text :: "RiskLevel \<Rightarrow> string" where
  "risk_level_text Safe = ''safe''"
| "risk_level_text At_risk = ''at_risk''"
| "risk_level_text Emergency = ''emergency''"

text \<open>\<^verbatim>\<open>s || d\<close> for a string that may be null or undefined: the empty string is falsy.\<close>

definition js_or_string :: "string option \<Rightarrow> string \<Rightarrow> string" where
  "js_or_string s d = (case s of None \<Rightarrow> d | Some x \<Rightarrow> if x = [] then d else x)"

text \<open>\<^verbatim>\<open>s || null\<close>\<close>

definition js_or_null :: "string option \<Rightarrow> string option" where
  "js_or_null s = (case s of None \<Rightarrow> None | Some x \<Rightarrow> if x = [] then None else Some x)"

text \<open>\<^verbatim>\<open>highestRisk.zone?.name\<close> and \<^verbatim>\<open>highestRisk.zone?.description\<close>\<close>

definition zone_name :: "HighestRisk \<Rightarrow> string option" where
  "zone_name highestRisk = (case zone highestRisk of None \<Rightarrow> None | Some z \<Rightarrow> name z)"

definition zone_description :: "HighestRisk \<Rightarrow> string option" where
  "zone_description highestRisk = (case zone highestRisk of None \<Rightarrow> None | Some z \<Rightarrow> description z)"

definition newline :: string where
  "newline = [CHR 0x0A]"

text \<open>\<^verbatim>\<open>https://maps.google.com/?q=${latitude},${longitude}\<close>\<close>

definition locationUrl :: "Runtime \<Rightarrow> real \<Rightarrow> real \<Rightarrow> string" where
  "locationUrl rt lat lon =
     ''https://maps.google.com/?q='' @ numberToString rt lat @ '','' @ numberToString rt lon"

section \<open>The endpoint check-risk-zone\<close>

record RiskCheckRequest =
  req_latitude :: real
  req_longitude :: real
  userId :: "string option"

record RiskCheckResponse =
  riskLevel :: RiskLevel
  riskScore :: real
  inRiskZone :: bool
  zoneName :: "string option"
  zoneDescription :: "string option"
  nearbyZones :: nat

text \<open>The message of an automatic alert; it starts with the warning sign U+26A0 U+FE0F.\<close>

definition alertMessage :: "Runtime \<Rightarrow> RiskCheckRequest \<Rightarrow> Profile option \<Rightarrow> HighestRisk \<Rightarrow> string" where
  "alertMessage rt req profile highestRisk =
     [CHR 0xE2, CHR 0x9A, CHR 0xA0, CHR 0xEF, CHR 0xB8, CHR 0x8F] @ '' Safety Alert: ''
       @ js_or_string (map_option profile_name profile) ''Your contact''
       @ '' has entered a high-risk area.'' @ newline @ newline
       @ ''Zone: '' @ js_or_string (zone_name highestRisk) ''Unknown'' @ newline
       @ ''Location: '' @ locationUrl rt (req_latitude req) (req_longitude req) @ newline @ newline
       @ ''This is an automatic safety notification from SHElytics.''"

text \<open>\<^verbatim>\<open>contacts.map(contact => ({ ... }))\<close> of the automatic alert.\<close>

definition auto_alertsToCreate ::
  "Runtime \<Rightarrow> RiskCheckRequest \<Rightarrow> Profile option \<Rightarrow> HighestRisk \<Rightarrow> Incident
     \<Rightarrow> EmergencyContact list \<Rightarrow> AlertInsert list" where
  "auto_alertsToCreate rt req profile highestRisk incident contacts =
     map (\<lambda>contact.
            \<lparr>incident_id = inc_id incident,
             contact_id = Some (ec_id contact),
             sent_to_police = False,
             message = alertMessage rt req profile highestRisk,
             al_latitude = req_latitude req,
             al_longitude = req_longitude req\<rparr>) contacts"

text \<open>The object inserted into \<^verbatim>\<open>incidents\<close> by the automatic alert.\<close>

definition auto_incident :: "RiskCheckRequest \<Rightarrow> string \<Rightarrow> HighestRisk \<Rightarrow> IncidentInsert" where
  "auto_incident req uid highestRisk =
     \<lparr>user_id = uid,
      inc_latitude = req_latitude req,
      inc_longitude = req_longitude req,
      alert_type = Risk_zone_entry,
      inc_risk_level = risk_level_text (level highestRisk),
      status = Pending,
      inc_description =
        Some (''Auto-alert: Entered '' @ js_or_string (zone_name highestRisk) ''high-risk zone'')\<rparr>"

text \<open>
  The block after the loop:
  \<^verbatim>\<open>if (highestRisk.inZone && highestRisk.level === 'emergency' && userId) { ... }\<close>.
  A \<^verbatim>\<open>userId\<close> that is absent or the empty string is falsy. The answers of the two inserts
  carry no error variable here: a failed insert of the incident leaves \<^verbatim>\<open>incident\<close> null,
  and the answer of the insert of the alerts is not read.
\<close>

definition auto_alert :: "Runtime \<Rightarrow> Store \<Rightarrow> RiskCheckRequest \<Rightarrow> HighestRisk \<Rightarrow> db_write list" where
  "auto_alert rt store req highestRisk =
     (case userId req of
        None \<Rightarrow> []
      | Some uid \<Rightarrow>
          if inZone highestRisk \<and> level highestRisk = Emergency \<and> uid \<noteq> [] then
            (let profile = profiles_select store uid;
                 prefs = user_preferences_select store uid
             in if (case prefs of None \<Rightarrow> False | Some p \<Rightarrow> auto_alert_on_risk_zone p = Some True) then
                  InsertIncident (auto_incident req uid highestRisk) #
                    (case incidents_insert store (auto_incident req uid highestRisk) of
                       Inl e \<Rightarrow> []
                     | Inr incident \<Rightarrow>
                         (case emergency_contacts_select store uid of
                            Inl e \<Rightarrow> []
                          | Inr contacts \<Rightarrow>
                              if length contacts > 0
                              then [InsertAlerts (auto_alertsToCreate rt req profile highestRisk incident contacts)]
                              else []))
                else [])
          else [])"

text \<open>The handler, for a request whose JSON body has been read.\<close>

definition check_risk_zone ::
  "Runtime \<Rightarrow> Store \<Rightarrow> RiskCheckRequest \<Rightarrow> RiskCheckResponse response \<times> db_write list" where
  "check_risk_zone rt store req =
     (case risk_zones_select store of
        Inl zonesError \<Rightarrow> (Error500 zonesError, [])
      | Inr riskZones \<Rightarrow>
          (let highestRisk =
                 server_evaluate (getHours rt) (req_latitude req) (req_longitude req)
                   (case riskZones of None \<Rightarrow> [] | Some zs \<Rightarrow> zs);
               writes = auto_alert rt store req highestRisk
           in (Ok200 \<lparr>riskLevel = level highestRisk,
                       riskScore = score highestRisk,
                       inRiskZone = inZone highestRisk,
                       zoneName = js_or_null (zone_name highestRisk),
                       zoneDescription = js_or_null (zone_description highestRisk),
                       nearbyZones = (case riskZones of None \<Rightarrow> 0 | Some zs \<Rightarrow> length zs)\<rparr>,
               writes)))"

section \<open>The endpoint send-sos-alert\<close>

record SOSRequest =
  sos_userId :: string
  sos_latitude :: real
  sos_longitude :: real
  userName :: string
  sos_riskLevel :: string

record SOSResponse =
  success :: bool
  incidentId :: string
  alertsSent :: nat
  sos_message :: string

text \<open>The message to the contacts; it starts with the siren sign U+1F6A8.\<close>

definition emergencyMessage :: "Runtime \<Rightarrow> SOSRequest \<Rightarrow> string" where
  "emergencyMessage rt req =
     [CHR 0xF0, CHR 0x9F, CHR 0x9A, CHR 0xA8] @ '' EMERGENCY ALERT from '' @ userName req @ ''!''
       @ newline @ newline
       @ ''I need help! My live location: ''
       @ locationUrl rt (sos_latitude req) (sos_longitude req) @ newline @ newline
       @ ''Risk Level: '' @ toUpperCase rt (sos_riskLevel req) @ newline
       @ ''Timestamp: '' @ toISOString rt @ newline @ newline
       @ ''Sent via SHElytics Safety App''"

definition policeMessage :: "Runtime \<Rightarrow> SOSRequest \<Rightarrow> string" where
  "policeMessage rt req =
     ''EMERGENCY ALERT'' @ newline @ newline
       @ ''User: '' @ userName req @ newline
       @ ''Location: '' @ numberToString rt (sos_latitude req) @ '', ''
       @ numberToString rt (sos_longitude req) @ newline
       @ ''Maps: '' @ locationUrl rt (sos_latitude req) (sos_longitude req) @ newline
       @ ''Risk Level: '' @ sos_riskLevel req @ newline
       @ ''Time: '' @ toISOString rt @ newline @ newline
       @ ''Immediate assistance required.''"

definition sos_incident :: "SOSRequest \<Rightarrow> IncidentInsert" where
  "sos_incident req =
     \<lparr>user_id = sos_userId req,
      inc_latitude = sos_latitude req,
      inc_longitude = sos_longitude req,
      alert_type = Sos,
      inc_risk_level = sos_riskLevel req,
      status = Active,
      inc_description = None\<rparr>"

text \<open>
  \<^verbatim>\<open>alertsToCreate\<close>: one element pushed for each contact when \<^verbatim>\<open>contacts\<close> is not null
  and not empty, then the alert for the police. \<open>contacts\<close> is \<open>None\<close> when the query of the
  contacts failed.
\<close>

definition alertsToCreate ::
  "Runtime \<Rightarrow> SOSRequest \<Rightarrow> Incident \<Rightarrow> EmergencyContact list option \<Rightarrow> AlertInsert list" where
  "alertsToCreate rt req incident contacts =
     (case contacts of
        None \<Rightarrow> []
      | Some cs \<Rightarrow>
          if length cs > 0
          then map (\<lambda>contact.
                      \<lparr>incident_id = inc_id incident,
                       contact_id = Some (ec_id contact),
                       sent_to_police = False,
                       message = emergencyMessage rt req,
                       al_latitude = sos_latitude req,
                       al_longitude = sos_longitude req\<rparr>) cs
          else [])
     @ [\<lparr>incident_id = inc_id incident,
         contact_id = None,
         sent_to_police = True,
         message = policeMessage rt req,
         al_latitude = sos_latitude req,
         al_longitude = sos_longitude req\<rparr>]"

text \<open>
  The handler, for a request whose JSON body has been read. An error of the insert of the
  incident is thrown; an error of the query of the contacts and an error of the insert of the
  alerts are written to the console and the handler goes on.
\<close>

definition send_sos_alert ::
  "Runtime \<Rightarrow> Store \<Rightarrow> SOSRequest \<Rightarrow> SOSResponse response \<times> db_write list" where
  "send_sos_alert rt store req =
     (case incidents_insert store (sos_incident req) of
        Inl incidentError \<Rightarrow> (Error500 incidentError, [InsertIncident (sos_incident req)])
      | Inr incident \<Rightarrow>
          (let contacts = (case emergency_contacts_select store (sos_userId req) of
                             Inl contactsError \<Rightarrow> None
                           | Inr cs \<Rightarrow> Some cs);
               batch = alertsToCreate rt req incident contacts;
               alertsError = alerts_insert store batch
           in (Ok200 \<lparr>success = True,
                       incidentId = inc_id incident,
                       alertsSent = length batch,
                       sos_message = ''Emergency alerts dispatched successfully''\<rparr>,
               [InsertIncident (sos_incident req), InsertAlerts batch])))"

section \<open>Vocabulary of the statements\<close>

text \<open>The point is inside the zone; the point is in the band between the radius and 1.5 times the radius.\<close>

definition inside_zone :: "real \<Rightarrow> real \<Rightarrow> RiskZone \<Rightarrow> bool" where
  "inside_zone lat lon z \<longleftrightarrow>
     getDistanceInMeters lat lon (latitude z) (longitude z) \<le> radius_meters z"

definition approaching_zone :: "real \<Rightarrow> real \<Rightarrow> RiskZone \<Rightarrow> bool" where
  "approaching_zone lat lon z \<longleftrightarrow>
     radius_meters z < getDistanceInMeters lat lon (latitude z) (longitude z)
     \<and> getDistanceInMeters lat lon (latitude z) (longitude z) \<le> 1.5 * radius_meters z"

text \<open>The same two tests with the distance that the client computes.\<close>

definition client_inside :: "real \<Rightarrow> real \<Rightarrow> RiskZone \<Rightarrow> bool" where
  "client_inside lat lng z \<longleftrightarrow>
     getDistanceFromLatLonInKm lat lng (latitude z) (longitude z) * 1000 \<le> radius_meters z"

definition client_approaching :: "real \<Rightarrow> real \<Rightarrow> RiskZone \<Rightarrow> bool" where
  "client_approaching lat lng z \<longleftrightarrow>
     radius_meters z < getDistanceFromLatLonInKm lat lng (latitude z) (longitude z) * 1000
     \<and> getDistanceFromLatLonInKm lat lng (latitude z) (longitude z) * 1000 \<le> 1.5 * radius_meters z"

text \<open>
  What a zone offers to the running result, seen from the point: a zone that contains the
  point offers its level with its time-weighted score, a zone that is approached offers
  at_risk with half its base score, a zone that is farther away offers nothing. The offer of
  a containing zone to the client is written with \<open>timeRisk\<close>: it is used for evaluations of
  the client that return a result, where every containing zone has a mapping and the client's
  expression has the value of the endpoint's.
\<close>

datatype zone_event = Inside RiskLevel real | Approach real | Far

definition server_event :: "nat \<Rightarrow> real \<Rightarrow> real \<Rightarrow> RiskZone \<Rightarrow> zone_event" where
  "server_event hour lat lon z =
     (if inside_zone lat lon z then Inside (risk_level z) (timeRisk hour z)
      else if approaching_zone lat lon z then Approach (risk_score z * 0.5)
      else Far)"

definition client_event :: "nat \<Rightarrow> real \<Rightarrow> real \<Rightarrow> RiskZone \<Rightarrow> zone_event" where
  "client_event hour lat lng z =
     (if client_inside lat lng z then Inside (risk_level z) (timeRisk hour z)
      else if client_approaching lat lng z then Approach (risk_score z * 0.5)
      else Far)"

text \<open>The level and the score after one more offer, and after a list of offers from the safe default.\<close>

fun event_step :: "RiskLevel \<times> real \<Rightarrow> zone_event \<Rightarrow> RiskLevel \<times> real" where
  "event_step (l, s) (Inside l' w) = (if w > s then (l', w) else (l, s))"
| "event_step (l, s) (Approach a) = (if a > s \<and> l = Safe then (At_risk, a) else (l, s))"
| "event_step (l, s) Far = (l, s)"



text \<open>The greatest time-weighted score of the zones that contain the point, at least 0.\<close>

fun inside_top :: "zone_event list \<Rightarrow> real" where
  "inside_top [] = 0"
| "inside_top (Inside l w # es) = max w (inside_top es)"
| "inside_top (Approach a # es) = inside_top es"
| "inside_top (Far # es) = inside_top es"

text \<open>
  \<open>dominated\<close>: no approached zone offers more than that greatest score.
  \<open>top_ties\<close>: when that greatest score is positive, the offers that carry it carry the same
  level. \<open>exceptional\<close>: some approached zone offers more than that greatest score, every
  approached zone offers that same score or at most 0, and every zone that contains the
  point with a positive score has the level safe.
\<close>

fun is_approach :: "zone_event \<Rightarrow> bool" where
  "is_approach (Approach a) = True"
| "is_approach (Inside l w) = False"
| "is_approach Far = False"

fun approach_score :: "zone_event \<Rightarrow> real" where
  "approach_score (Approach a) = a"
| "approach_score (Inside l w) = 0"
| "approach_score Far = 0"

definition dominated :: "zone_event list \<Rightarrow> bool" where
  "dominated es = list_all (\<lambda>e. is_approach e \<longrightarrow> approach_score e \<le> inside_top es) es"


fun safe_or_idle :: "zone_event \<Rightarrow> bool" where
  "safe_or_idle (Inside l w) = (0 < w \<longrightarrow> l = Safe)"
| "safe_or_idle (Approach a) = True"
| "safe_or_idle Far = True"

definition exceptional :: "zone_event list \<Rightarrow> bool" where
  "exceptional es =
     (list_all safe_or_idle es
      \<and> list_ex (\<lambda>b. is_approach b \<and> inside_top es < approach_score b
             \<and> list_all (\<lambda>e. is_approach e \<longrightarrow>
                   approach_score e \<le> 0 \<or> approach_score e = approach_score b) es) es)"




text \<open>The handler has issued the insert of an incident.\<close>

fun is_incident_write :: "db_write \<Rightarrow> bool" where
  "is_incident_write (InsertIncident f) = True"
| "is_incident_write (InsertAlerts b) = False"

definition incident_created :: "db_write list \<Rightarrow> bool" where
  "incident_created ws = list_ex is_incident_write ws"

text \<open>The batches of alerts that the handler has written.\<close>

fun alert_batches :: "db_write list \<Rightarrow> AlertInsert list list" where
  "alert_batches [] = []"
| "alert_batches (InsertIncident f # ws) = alert_batches ws"
| "alert_batches (InsertAlerts b # ws) = b # alert_batches ws"

text \<open>
  The preference \<^verbatim>\<open>auto_alert_on_risk_zone\<close> stored for the user of the request is true.
\<close>

definition stored_preference :: "Store \<Rightarrow> RiskCheckRequest \<Rightarrow> bool" where
  "stored_preference store req =
     (case userId req of
        None \<Rightarrow> False
      | Some uid \<Rightarrow>
          (case user_preferences_select store uid of
             None \<Rightarrow> False
           | Some p \<Rightarrow> auto_alert_on_risk_zone p = Some True))"

section \<open>Examples\<close>

text \<open>
  A zone of radius 1000 m on the equator, at longitude \<open>lon\<close>. Seen from the point (0, 0) it
  contains the point when \<open>lon = 0\<close>, is approached when \<open>lon = 0.01\<close> (about 1112 m away)
  and is far away when \<open>lon = 1\<close> (about 111 km away).
\<close>

definition example_zone ::
  "real \<Rightarrow> real \<Rightarrow> RiskLevel \<Rightarrow> (string \<rightharpoonup> real) option \<Rightarrow> RiskZone" where
  "example_zone lon s l m =
     \<lparr>zone_id = ''1'', name = Some ''Industrial Zone'', latitude = 0, longitude = lon,
      radius_meters = 1000, risk_score = s, risk_level = l, incident_count = 0,
      time_of_day_risk = m, description = Some ''High risk area''\<rparr>"

definition ascii_upper :: "char \<Rightarrow> char" where
  "ascii_upper c =
     (if 97 \<le> (of_char c :: nat) \<and> (of_char c :: nat) \<le> 122
      then char_of ((of_char c :: nat) - 32) else c)"

text \<open>A runtime at the hour \<open>h\<close>, for requests at the point (0, 0).\<close>

definition example_runtime :: "nat \<Rightarrow> Runtime" where
  "example_runtime h =
     \<lparr>getHours = h, toISOString = ''2026-01-28T03:37:18.000Z'',
      numberToString = (\<lambda>x. ''0''), toUpperCase = map ascii_upper\<rparr>"

definition example_contact :: "string \<Rightarrow> EmergencyContact" where
  "example_contact i = \<lparr>ec_id = i, ec_user_id = ''u1'', ec_name = ''Asha'', ec_phone = ''100''\<rparr>"

text \<open>
  A store with the zones \<open>zs\<close>, one user \<open>u1\<close> with the preference \<open>pref\<close> and two
  contacts; the inserted incident gets the identifier \<open>i1\<close>; \<open>alerts_fail\<close> makes the insert
  of alerts answer with an error.
\<close>

definition example_store :: "RiskZone list \<Rightarrow> bool \<Rightarrow> bool \<Rightarrow> Store" where
  "example_store zs pref alerts_fail =
     \<lparr>risk_zones_select = Inr (Some zs),
      profiles_select = (\<lambda>uid. if uid = ''u1'' then Some \<lparr>profile_name = ''Kavya''\<rparr> else None),
      user_preferences_select =
        (\<lambda>uid. if uid = ''u1'' then Some \<lparr>auto_alert_on_risk_zone = Some pref\<rparr> else None),
      emergency_contacts_select =
        (\<lambda>uid. if uid = ''u1'' then Inr [example_contact ''c1'', example_contact ''c2''] else Inr []),
      incidents_insert = (\<lambda>f. Inr (IncidentInsert.extend f \<lparr>inc_id = ''i1''\<rparr>)),
      alerts_insert = (\<lambda>b. if alerts_fail then Some (PostgrestError ''insert failed'') else None)\<rparr>"

definition example_request :: "string option \<Rightarrow> RiskCheckRequest" where
  "example_request u = \<lparr>req_latitude = 0, req_longitude = 0, userId = u\<rparr>"

definition example_sos :: SOSRequest where
  "example_sos =
     \<lparr>sos_userId = ''u1'', sos_latitude = 0, sos_longitude = 0, userName = ''Kavya'',
      sos_riskLevel = ''emergency''\<rparr>"

section \<open>Properties of the distance\<close>

lemma hav_swap:
  "sin (((a - b) * pi / 180) / 2) * sin (((a - b) * pi / 180) / 2) =
   sin (((b - a) * pi / 180) / 2) * sin (((b - a) * pi / 180) / 2)"
proof -
  have "((a - b) * pi / 180) / 2 = - (((b - a) * pi / 180) / 2)"
    by (simp add: field_simps)
  then have "sin (((a - b) * pi / 180) / 2) = - sin (((b - a) * pi / 180) / 2)"
    by (simp only: sin_minus)
  then show ?thesis
    by simp
qed

lemma hav_swap_client:
  "sin (deg2rad (a - b) / 2) * sin (deg2rad (a - b) / 2) =
   sin (deg2rad (b - a) / 2) * sin (deg2rad (b - a) / 2)"
proof -
  have "deg2rad (a - b) / 2 = - (deg2rad (b - a) / 2)"
    by (simp add: deg2rad_def field_simps)
  then have "sin (deg2rad (a - b) / 2) = - sin (deg2rad (b - a) / 2)"
    by (simp only: sin_minus)
  then show ?thesis
    by simp
qed

lemma hav_rearrange: "p + c1 * c2 * s * s = p + c2 * c1 * (s * (s::real))"
  by (simp add: ac_simps)

lemma hav_sum_swap:
  fixes p q c1 c2 s t :: real
  assumes "p * p = q * q" and "s * s = t * t"
  shows "p * p + c1 * c2 * s * s = q * q + c2 * c1 * t * t"
proof -
  have "p * p + c1 * c2 * s * s = p * p + c2 * c1 * (s * s)"
    by (rule hav_rearrange)
  also have "\<dots> = q * q + c2 * c1 * (t * t)"
    by (simp only: assms)
  also have "\<dots> = q * q + c2 * c1 * t * t"
    by (simp only: mult.assoc)
  finally show ?thesis .
qed

lemma server_symm:
  "getDistanceInMeters lat1 lon1 lat2 lon2 = getDistanceInMeters lat2 lon2 lat1 lon1"
  unfolding getDistanceInMeters_def Let_def
  by (simp only: hav_sum_swap [OF hav_swap [of lat2 lat1] hav_swap [of lon2 lon1]])

lemma client_symm:
  "getDistanceFromLatLonInKm lat1 lon1 lat2 lon2 = getDistanceFromLatLonInKm lat2 lon2 lat1 lon1"
  unfolding getDistanceFromLatLonInKm_def Let_def
  by (simp only: hav_sum_swap [OF hav_swap_client [of lat2 lat1] hav_swap_client [of lon2 lon1]])

section \<open>Distances of the examples\<close>

lemma pi_ge_three: "3 \<le> pi"
proof -
  have "sin (pi / 6) \<le> pi / 6"
    by (rule sin_x_le_x) simp
  then show ?thesis
    by (simp add: sin_30)
qed

lemma distance_same_point: "getDistanceInMeters lat lon lat lon = 0"
  by (simp add: getDistanceInMeters_def atan2_def)

lemma atan2_sin_cos:
  assumes "0 \<le> t" and "t < pi / 2"
  shows "atan2 (sin t) (cos t) = t"
proof -
  have c: "0 < cos t"
    using assms by (intro cos_gt_zero_pi) auto
  have "arctan (tan t) = t"
    using assms by (intro arctan_tan) auto
  with c show ?thesis
    by (simp add: atan2_def tan_def)
qed

lemma distance_on_equator:
  assumes "0 \<le> x" and "x < 180"
  shows "getDistanceInMeters 0 0 0 x = 6371000 * (x * pi / 180)"
proof -
  define t where "t = x * pi / 360"
  have t0: "0 \<le> t"
    using assms by (simp add: t_def)
  have t1: "t < pi / 2"
    using assms by (simp add: t_def)
  have s: "0 \<le> sin t"
    using t0 t1 by (intro sin_ge_zero) auto
  have c: "0 < cos t"
    using t0 t1 by (intro cos_gt_zero_pi) auto
  have "1 - sin t * sin t = cos t * cos t"
    using sin_cos_squared_add [of t] by (simp add: power2_eq_square)
  then have r: "sqrt (1 - sin t * sin t) = cos t"
    using c by simp
  have "getDistanceInMeters 0 0 0 x = 6371000 * (2 * atan2 (sqrt (sin t * sin t)) (sqrt (1 - sin t * sin t)))"
    by (simp add: getDistanceInMeters_def t_def)
  also have "\<dots> = 6371000 * (2 * atan2 (sin t) (cos t))"
    using s r by simp
  also have "\<dots> = 6371000 * (2 * t)"
    by (simp add: atan2_sin_cos [OF t0 t1])
  finally show ?thesis
    by (simp add: t_def)
qed

lemma distance_hundredth_degree:
  "1000 < getDistanceInMeters 0 0 0 (1/100)" "getDistanceInMeters 0 0 0 (1/100) \<le> 1500"
  using pi_ge_three pi_less_4 by (simp_all add: distance_on_equator)

lemma distance_one_degree:
  "100000 < getDistanceInMeters 0 0 0 1"
  using pi_ge_three by (simp add: distance_on_equator)

lemma client_distance_same_point: "getDistanceFromLatLonInKm lat lon lat lon = 0"
  by (simp add: getDistanceFromLatLonInKm_def deg2rad_def atan2_def)

lemma client_distance_on_equator:
  assumes "0 \<le> x" and "x < 180"
  shows "getDistanceFromLatLonInKm 0 0 0 x = 6371 * (x * pi / 180)"
proof -
  define t where "t = x * pi / 360"
  have t0: "0 \<le> t"
    using assms by (simp add: t_def)
  have t1: "t < pi / 2"
    using assms by (simp add: t_def)
  have s: "0 \<le> sin t"
    using t0 t1 by (intro sin_ge_zero) auto
  have c: "0 < cos t"
    using t0 t1 by (intro cos_gt_zero_pi) auto
  have "1 - sin t * sin t = cos t * cos t"
    using sin_cos_squared_add [of t] by (simp add: power2_eq_square)
  then have r: "sqrt (1 - sin t * sin t) = cos t"
    using c by simp
  have "getDistanceFromLatLonInKm 0 0 0 x
      = 6371 * (2 * atan2 (sqrt (sin t * sin t)) (sqrt (1 - sin t * sin t)))"
    by (simp add: getDistanceFromLatLonInKm_def deg2rad_def t_def)
  also have "\<dots> = 6371 * (2 * atan2 (sin t) (cos t))"
    using s r by simp
  also have "\<dots> = 6371 * (2 * t)"
    by (simp add: atan2_sin_cos [OF t0 t1])
  finally show ?thesis
    by (simp add: t_def)
qed

lemma client_distance_hundredth_degree:
  "1000 < getDistanceFromLatLonInKm 0 0 0 (1/100) * 1000"
  "getDistanceFromLatLonInKm 0 0 0 (1/100) * 1000 \<le> 1500"
  using pi_ge_three pi_less_4 by (simp_all add: client_distance_on_equator)

lemma client_distance_one_degree:
  "100000 < getDistanceFromLatLonInKm 0 0 0 1 * 1000"
  using pi_ge_three by (simp add: client_distance_on_equator)

section \<open>Offers in any order\<close>










subsection \<open>The greatest score of the containing zones\<close>

lemma inside_top_nonneg: "0 \<le> inside_top es"
  by (induction es rule: inside_top.induct) simp_all

lemma inside_top_ge: "Inside l w \<in> set es \<Longrightarrow> w \<le> inside_top es"
  by (induction es rule: inside_top.induct) auto

lemma inside_top_attained: "inside_top es = 0 \<or> (\<exists>l. Inside l (inside_top es) \<in> set es)"
  by (induction es rule: inside_top.induct) (auto simp: max_def)

lemma inside_top_le:
  assumes "set es \<subseteq> set es'"
  shows "inside_top es \<le> inside_top es'"
proof -
  from inside_top_attained [of es] show ?thesis
  proof
    assume "inside_top es = 0"
    then show ?thesis by (simp add: inside_top_nonneg)
  next
    assume "\<exists>l. Inside l (inside_top es) \<in> set es"
    then obtain l where "Inside l (inside_top es) \<in> set es" ..
    with assms have "Inside l (inside_top es) \<in> set es'" by auto
    then show ?thesis by (rule inside_top_ge)
  qed
qed

lemma inside_top_set: "set es = set es' \<Longrightarrow> inside_top es = inside_top es'"
  by (intro antisym inside_top_le) simp_all

lemma dominated_iff:
  "dominated es \<longleftrightarrow> (\<forall>a. Approach a \<in> set es \<longrightarrow> a \<le> inside_top es)"
proof
  assume d: "dominated es"
  show "\<forall>a. Approach a \<in> set es \<longrightarrow> a \<le> inside_top es"
  proof (intro allI impI)
    fix a assume "Approach a \<in> set es"
    with d have "is_approach (Approach a) \<longrightarrow> approach_score (Approach a) \<le> inside_top es"
      unfolding dominated_def list_all_iff by blast
    then show "a \<le> inside_top es" by simp
  qed
next
  assume a: "\<forall>a. Approach a \<in> set es \<longrightarrow> a \<le> inside_top es"
  have "is_approach e \<longrightarrow> approach_score e \<le> inside_top es" if "e \<in> set es" for e
  proof (cases e)
    case (Approach b)
    with that a show ?thesis by simp
  qed simp_all
  then show "dominated es"
    unfolding dominated_def list_all_iff by blast
qed




lemma safe_or_idle_iff:
  "list_all safe_or_idle es \<longleftrightarrow> (\<forall>l w. Inside l w \<in> set es \<and> 0 < w \<longrightarrow> l = Safe)"
proof
  assume a: "list_all safe_or_idle es"
  show "\<forall>l w. Inside l w \<in> set es \<and> 0 < w \<longrightarrow> l = Safe"
  proof (intro allI impI)
    fix l w assume "Inside l w \<in> set es \<and> 0 < w"
    with a have "safe_or_idle (Inside l w)" "0 < w"
      unfolding list_all_iff by blast+
    then show "l = Safe" by simp
  qed
next
  assume a: "\<forall>l w. Inside l w \<in> set es \<and> 0 < w \<longrightarrow> l = Safe"
  have "safe_or_idle e" if "e \<in> set es" for e
  proof (cases e)
    case (Inside l w)
    with that a show ?thesis by auto
  qed simp_all
  then show "list_all safe_or_idle es"
    unfolding list_all_iff by blast
qed

lemma approaches_iff:
  "list_all (\<lambda>e. is_approach e \<longrightarrow> approach_score e \<le> 0 \<or> approach_score e = b) es
     \<longleftrightarrow> (\<forall>a. Approach a \<in> set es \<longrightarrow> a \<le> 0 \<or> a = b)"
proof
  assume a: "list_all (\<lambda>e. is_approach e \<longrightarrow> approach_score e \<le> 0 \<or> approach_score e = b) es"
  show "\<forall>a. Approach a \<in> set es \<longrightarrow> a \<le> 0 \<or> a = b"
  proof (intro allI impI)
    fix c assume "Approach c \<in> set es"
    with a have "is_approach (Approach c) \<longrightarrow>
        approach_score (Approach c) \<le> 0 \<or> approach_score (Approach c) = b"
      unfolding list_all_iff by blast
    then show "c \<le> 0 \<or> c = b" by simp
  qed
next
  assume a: "\<forall>a. Approach a \<in> set es \<longrightarrow> a \<le> 0 \<or> a = b"
  have "is_approach e \<longrightarrow> approach_score e \<le> 0 \<or> approach_score e = b" if "e \<in> set es" for e
  proof (cases e)
    case (Approach c)
    with that a show ?thesis by simp
  qed simp_all
  then show "list_all (\<lambda>e. is_approach e \<longrightarrow> approach_score e \<le> 0 \<or> approach_score e = b) es"
    unfolding list_all_iff by blast
qed

lemma exceptional_iff:
  "exceptional es \<longleftrightarrow>
     (\<forall>l w. Inside l w \<in> set es \<and> 0 < w \<longrightarrow> l = Safe)
     \<and> (\<exists>b. Approach b \<in> set es \<and> inside_top es < b
            \<and> (\<forall>a. Approach a \<in> set es \<longrightarrow> a \<le> 0 \<or> a = b))"
proof -
  have "list_ex (\<lambda>b. is_approach b \<and> inside_top es < approach_score b
             \<and> list_all (\<lambda>e. is_approach e \<longrightarrow>
                   approach_score e \<le> 0 \<or> approach_score e = approach_score b) es) es
        \<longleftrightarrow> (\<exists>b. Approach b \<in> set es \<and> inside_top es < b
            \<and> (\<forall>a. Approach a \<in> set es \<longrightarrow> a \<le> 0 \<or> a = b))"
    (is "?L \<longleftrightarrow> ?R")
  proof
    assume ?L
    then obtain e where e: "e \<in> set es" "is_approach e" "inside_top es < approach_score e"
      "\<forall>a. Approach a \<in> set es \<longrightarrow> a \<le> 0 \<or> a = approach_score e"
      unfolding list_ex_iff approaches_iff by blast
    from e(2) obtain b where "e = Approach b"
      by (cases e) simp_all
    with e show ?R by auto
  next
    assume ?R
    then obtain b where b: "Approach b \<in> set es" "inside_top es < b"
      "\<forall>a. Approach a \<in> set es \<longrightarrow> a \<le> 0 \<or> a = b"
      by blast
    then have "is_approach (Approach b) \<and> inside_top es < approach_score (Approach b)
        \<and> list_all (\<lambda>e. is_approach e \<longrightarrow>
              approach_score e \<le> 0 \<or> approach_score e = approach_score (Approach b)) es"
      by (simp add: approaches_iff)
    with b(1) show ?L
      unfolding list_ex_iff by blast
  qed
  then show ?thesis
    by (simp add: exceptional_def safe_or_idle_iff)
qed



lemma exceptional_set: "set es = set es' \<Longrightarrow> exceptional es = exceptional es'"
  by (simp add: exceptional_iff inside_top_set [of es es'])

lemma dominated_not_exceptional: "dominated es \<Longrightarrow> \<not> exceptional es"
  by (auto simp: dominated_iff exceptional_iff)

subsection \<open>When the order does not matter\<close>




subsection \<open>Orders that tell the offers apart\<close>









subsection \<open>The two characterisations\<close>



section \<open>The two loops as runs of offers\<close>




lemma client_step_cases:
  "client_step hour lat lng (l, s, c) z =
     (if client_inside lat lng z \<and> time_of_day_risk z = None then Inl TypeError
      else Inr (fst (event_step (l, s) (client_event hour lat lng z)),
                snd (event_step (l, s) (client_event hour lat lng z)),
                if event_step (l, s) (client_event hour lat lng z) = (l, s) then c else Some z))"
  by (auto simp: client_step_def client_event_def client_inside_def client_approaching_def
      client_timeRisk_def timeRisk_def Let_def split: option.splits)







section \<open>The loop of the endpoint and the fold of the specification\<close>

lemma server_step_spec:
  "server_step hour lat lon r z =
     spec_step (timeRisk hour) (\<lambda>z. getDistanceInMeters lat lon (latitude z) (longitude z)) r z"
  by (auto simp: server_step_def spec_step_def Let_def)

lemma server_loop_foldl:
  "server_loop hour lat lon r zs = foldl (server_step hour lat lon) r zs"
  by (induction zs arbitrary: r) simp_all

lemma server_evaluate_fold:
  "server_evaluate hour lat lon zs =
     spec_evaluate (timeRisk hour) (\<lambda>z. getDistanceInMeters lat lon (latitude z) (longitude z)) zs"
proof -
  have "server_step hour lat lon =
          spec_step (timeRisk hour) (\<lambda>z. getDistanceInMeters lat lon (latitude z) (longitude z))"
    by (intro ext) (rule server_step_spec)
  then show ?thesis
    by (simp add: server_evaluate_def spec_evaluate_def server_loop_foldl initialRisk_def
        spec_default_def)
qed

section \<open>The time-weighted score\<close>

lemma timeOfDay_spec_bucket: "timeOfDay hour = spec_bucket hour"
  by (simp add: timeOfDay_def spec_bucket_def)

lemma timeRisk_cases:
  "timeRisk hour z =
     (case time_of_day_risk z of
        None \<Rightarrow> risk_score z
      | Some m \<Rightarrow>
          (case m (if hour \<ge> 18 \<or> hour < 6 then ''night'' else ''day'') of
             None \<Rightarrow> risk_score z
           | Some v \<Rightarrow> if v = 0 then risk_score z else v))"
  by (simp add: timeRisk_def timeOfDay_def js_or_def split: option.splits)

text \<open>The weighting of the specification and the one of the code differ at an override of 0 only.\<close>

lemma timeRisk_spec_weighted:
  "\<not> zero_override hour z \<Longrightarrow> timeRisk hour z = spec_weighted_score hour z"
  by (auto simp: zero_override_def timeRisk_def timeOfDay_spec_bucket js_or_def
      spec_weighted_score_def split: option.splits)

lemma spec_step_cong:
  "w z = w' z \<Longrightarrow> spec_step w d r z = spec_step w' d r z"
  by (simp add: spec_step_def)

lemma spec_fold_cong:
  "\<forall>z\<in>set zs. w z = w' z \<Longrightarrow> foldl (spec_step w d) r zs = foldl (spec_step w' d) r zs"
proof (induction zs arbitrary: r)
  case Nil
  then show ?case by simp
next
  case (Cons z zs)
  then have "spec_step w d r z = spec_step w' d r z"
    by (intro spec_step_cong) simp
  with Cons show ?case by simp
qed

lemma server_evaluate_spec_weighted:
  assumes "\<forall>z\<in>set zs. \<not> zero_override hour z"
  shows "server_evaluate hour lat lon zs =
     spec_evaluate (spec_weighted_score hour)
       (\<lambda>z. getDistanceInMeters lat lon (latitude z) (longitude z)) zs"
proof -
  from assms have "\<forall>z\<in>set zs. timeRisk hour z = spec_weighted_score hour z"
    by (simp add: timeRisk_spec_weighted)
  then show ?thesis
    unfolding server_evaluate_fold spec_evaluate_def by (rule spec_fold_cong)
qed

section \<open>The selected zone\<close>

lemma server_loop_zone:
  "zone (server_loop hour lat lon r zs) = Some z \<Longrightarrow> zone r = Some z \<or> z \<in> set zs"
proof (induction zs arbitrary: r)
  case Nil
  then show ?case by simp
next
  case (Cons y ys)
  from Cons.prems have "zone (server_loop hour lat lon (server_step hour lat lon r y) ys) = Some z"
    by simp
  then have "zone (server_step hour lat lon r y) = Some z \<or> z \<in> set ys"
    by (rule Cons.IH)
  moreover have "zone (server_step hour lat lon r y) = Some z \<Longrightarrow> zone r = Some z \<or> z = y"
    by (auto simp: server_step_def Let_def split: if_splits)
  ultimately show ?case by auto
qed

lemma client_step_zone:
  "client_step hour lat lng (l, s, c) y = Inr (l', s', c') \<Longrightarrow> c' = Some z \<Longrightarrow> c = Some z \<or> z = y"
  by (auto simp: client_step_cases split: if_splits)

lemma client_loop_zone:
  "client_loop hour lat lng (l, s, c) zs = Inr (l', s', Some z) \<Longrightarrow> c = Some z \<or> z \<in> set zs"
proof (induction zs arbitrary: l s c)
  case Nil
  then show ?case by simp
next
  case (Cons y ys)
  from Cons.prems obtain l1 s1 c1 where
    st: "client_step hour lat lng (l, s, c) y = Inr (l1, s1, c1)"
    and lp: "client_loop hour lat lng (l1, s1, c1) ys = Inr (l', s', Some z)"
    by (auto split: sum.splits)
  from Cons.IH [OF lp] have "c1 = Some z \<or> z \<in> set ys" .
  then show ?case
  proof
    assume "c1 = Some z"
    with client_step_zone [OF st] show ?thesis by auto
  next
    assume "z \<in> set ys"
    then show ?thesis by simp
  qed
qed

lemma checkRisk_zone:
  assumes "checkRiskAtLocation hour zs lat lng = Inr r" and "zone r = Some z"
  shows "z \<in> set zs"
proof -
  from assms obtain l s where "client_loop hour lat lng (Safe, 0, None) zs = Inr (l, s, Some z)"
    by (auto simp: checkRiskAtLocation_def split: sum.splits prod.splits)
  from client_loop_zone [OF this] show ?thesis by simp
qed

section \<open>The steps at the examples\<close>

lemma example_zone_fields [simp]:
  "latitude (example_zone lon s l m) = 0"
  "longitude (example_zone lon s l m) = lon"
  "radius_meters (example_zone lon s l m) = 1000"
  "risk_score (example_zone lon s l m) = s"
  "risk_level (example_zone lon s l m) = l"
  "time_of_day_risk (example_zone lon s l m) = m"
  "name (example_zone lon s l m) = Some ''Industrial Zone''"
  "description (example_zone lon s l m) = Some ''High risk area''"
  by (simp_all add: example_zone_def)

lemma inside_example: "inside_zone 0 0 (example_zone 0 s l m)"
  using distance_same_point [of 0 0] by (simp add: inside_zone_def)

lemma approaching_example: "approaching_zone 0 0 (example_zone (1/100) s l m)"
  using distance_hundredth_degree by (simp add: approaching_zone_def)

lemma far_example:
  "\<not> inside_zone 0 0 (example_zone 1 s l m)" "\<not> approaching_zone 0 0 (example_zone 1 s l m)"
  using distance_one_degree by (simp_all add: approaching_zone_def inside_zone_def)

lemma inside_not_approaching: "inside_zone lat lon z \<Longrightarrow> \<not> approaching_zone lat lon z"
  by (simp add: approaching_zone_def inside_zone_def)

lemma approaching_not_inside: "approaching_zone lat lon z \<Longrightarrow> \<not> inside_zone lat lon z"
  by (simp add: approaching_zone_def inside_zone_def)

lemma client_inside_example: "client_inside 0 0 (example_zone 0 s l m)"
  using client_distance_same_point [of 0 0] by (simp add: client_inside_def)

lemma client_approaching_example: "client_approaching 0 0 (example_zone (1/100) s l m)"
  using client_distance_hundredth_degree by (simp add: client_approaching_def)

lemma client_not_inside_example: "\<not> client_inside 0 0 (example_zone (1/100) s l m)"
  using client_distance_hundredth_degree by (simp add: client_inside_def)

lemma client_far_example:
  "\<not> client_inside 0 0 (example_zone 1 s l m)" "\<not> client_approaching 0 0 (example_zone 1 s l m)"
  using client_distance_one_degree by (simp_all add: client_approaching_def client_inside_def)

lemma server_step_inside:
  "inside_zone lat lon z \<Longrightarrow>
   server_step hour lat lon r z =
     (if timeRisk hour z > score r
      then \<lparr>level = risk_level z, score = timeRisk hour z, zone = Some z, inZone = True\<rparr>
      else r)"
  by (simp add: server_step_def inside_zone_def Let_def)

lemma server_step_approaching:
  "approaching_zone lat lon z \<Longrightarrow>
   server_step hour lat lon r z =
     (if risk_score z * 0.5 > score r \<and> level r = Safe
      then \<lparr>level = At_risk, score = risk_score z * 0.5, zone = Some z, inZone = False\<rparr>
      else r)"
  by (simp add: server_step_def approaching_zone_def Let_def)

lemma server_step_far:
  "\<not> inside_zone lat lon z \<Longrightarrow> \<not> approaching_zone lat lon z \<Longrightarrow>
   server_step hour lat lon r z = r"
  by (auto simp: server_step_def approaching_zone_def inside_zone_def Let_def)

lemma client_step_inside:
  "client_inside lat lng z \<Longrightarrow>
   client_step hour lat lng (l, s, c) z =
     (case time_of_day_risk z of
        None \<Rightarrow> Inl TypeError
      | Some m \<Rightarrow>
          if js_or (m (timeOfDay hour)) (risk_score z) > s
          then Inr (risk_level z, js_or (m (timeOfDay hour)) (risk_score z), Some z)
          else Inr (l, s, c))"
  by (simp add: client_step_def client_inside_def client_timeRisk_def Let_def split: option.splits)


lemma server_event_examples [simp]:
  "server_event hour 0 0 (example_zone 0 s l m) = Inside l (timeRisk hour (example_zone 0 s l m))"
  "server_event hour 0 0 (example_zone (1/100) s l m) = Approach (s * 0.5)"
  "server_event hour 0 0 (example_zone 1 s l m) = Far"
  by (simp_all add: server_event_def inside_example approaching_example
      approaching_not_inside [OF approaching_example] far_example)

lemma client_event_examples [simp]:
  "client_event hour 0 0 (example_zone 0 s l m) = Inside l (timeRisk hour (example_zone 0 s l m))"
  "client_event hour 0 0 (example_zone (1/100) s l m) = Approach (s * 0.5)"
  "client_event hour 0 0 (example_zone 1 s l m) = Far"
  by (simp_all add: client_event_def client_inside_example client_approaching_example
      client_not_inside_example client_far_example)


section \<open>The two evaluators in any order\<close>








section \<open>The handlers\<close>

lemma auto_alert_created:
  assumes "user_preferences_select store [] = None"
  shows "incident_created (auto_alert rt store req hr) \<longleftrightarrow>
           inZone hr \<and> level hr = Emergency \<and> stored_preference store req"
  using assms
  by (auto simp: auto_alert_def incident_created_def stored_preference_def Let_def
      split: option.splits)

lemma auto_alert_noop:
  "\<not> incident_created (auto_alert rt store req hr) \<Longrightarrow> auto_alert rt store req hr = []"
  by (auto simp: auto_alert_def incident_created_def Let_def split: option.splits if_splits)

lemma check_risk_zone_ok:
  assumes "risk_zones_select store = Inr riskZones"
  shows "check_risk_zone rt store req =
     (Ok200 \<lparr>riskLevel = level (server_evaluate (getHours rt) (req_latitude req) (req_longitude req)
                 (case riskZones of None \<Rightarrow> [] | Some zs \<Rightarrow> zs)),
              riskScore = score (server_evaluate (getHours rt) (req_latitude req) (req_longitude req)
                 (case riskZones of None \<Rightarrow> [] | Some zs \<Rightarrow> zs)),
              inRiskZone = inZone (server_evaluate (getHours rt) (req_latitude req) (req_longitude req)
                 (case riskZones of None \<Rightarrow> [] | Some zs \<Rightarrow> zs)),
              zoneName = js_or_null (zone_name (server_evaluate (getHours rt) (req_latitude req)
                 (req_longitude req) (case riskZones of None \<Rightarrow> [] | Some zs \<Rightarrow> zs))),
              zoneDescription = js_or_null (zone_description (server_evaluate (getHours rt)
                 (req_latitude req) (req_longitude req) (case riskZones of None \<Rightarrow> [] | Some zs \<Rightarrow> zs))),
              nearbyZones = (case riskZones of None \<Rightarrow> 0 | Some zs \<Rightarrow> length zs)\<rparr>,
      auto_alert rt store req
        (server_evaluate (getHours rt) (req_latitude req) (req_longitude req)
           (case riskZones of None \<Rightarrow> [] | Some zs \<Rightarrow> zs)))"
  using assms by (simp add: check_risk_zone_def Let_def)

lemma example_store_fields [simp]:
  "risk_zones_select (example_store zs pref af) = Inr (Some zs)"
  "profiles_select (example_store zs pref af) ''u1'' = Some \<lparr>profile_name = ''Kavya''\<rparr>"
  "user_preferences_select (example_store zs pref af) ''u1'' = Some \<lparr>auto_alert_on_risk_zone = Some pref\<rparr>"
  "user_preferences_select (example_store zs pref af) [] = None"
  "emergency_contacts_select (example_store zs pref af) ''u1''
     = Inr [example_contact ''c1'', example_contact ''c2'']"
  "incidents_insert (example_store zs pref af) f = Inr (IncidentInsert.extend f \<lparr>inc_id = ''i1''\<rparr>)"
  "alerts_insert (example_store zs pref af) b
     = (if af then Some (PostgrestError ''insert failed'') else None)"
  by (simp_all add: example_store_def)

lemma example_request_fields [simp]:
  "req_latitude (example_request u) = 0"
  "req_longitude (example_request u) = 0"
  "userId (example_request u) = u"
  by (simp_all add: example_request_def)

lemma example_runtime_hour [simp]: "getHours (example_runtime h) = h"
  by (simp add: example_runtime_def)

lemma evaluate_inside_example:
  "0 < s \<Longrightarrow> server_evaluate 12 0 0 [example_zone 0 s l (Some Map.empty)] =
     \<lparr>level = l, score = s, zone = Some (example_zone 0 s l (Some Map.empty)), inZone = True\<rparr>"
  by (simp add: server_evaluate_def initialRisk_def server_step_inside [OF inside_example]
      timeRisk_def js_or_def)

lemma evaluate_approaching_example:
  "0 < s \<Longrightarrow> server_evaluate 12 0 0 [example_zone (1/100) s l (Some Map.empty)] =
     \<lparr>level = At_risk, score = s * 0.5, zone = Some (example_zone (1/100) s l (Some Map.empty)),
      inZone = False\<rparr>"
  by (simp add: server_evaluate_def initialRisk_def server_step_approaching [OF approaching_example])

lemma evaluate_far_example:
  "server_evaluate 12 0 0 [example_zone 1 s l (Some Map.empty)] = initialRisk"
  by (simp add: server_evaluate_def server_step_far [OF far_example])

lemma alertsToCreate_Some:
  "alertsToCreate rt req incident (Some cs) =
     map (\<lambda>contact.
            \<lparr>incident_id = inc_id incident, contact_id = Some (ec_id contact),
             sent_to_police = False, message = emergencyMessage rt req,
             al_latitude = sos_latitude req, al_longitude = sos_longitude req\<rparr>) cs
     @ [\<lparr>incident_id = inc_id incident, contact_id = None, sent_to_police = True,
         message = policeMessage rt req,
         al_latitude = sos_latitude req, al_longitude = sos_longitude req\<rparr>]"
  by (cases cs) (simp_all add: alertsToCreate_def)

lemma alertsToCreate_None:
  "alertsToCreate rt req incident None = alertsToCreate rt req incident (Some [])"
  by (simp add: alertsToCreate_def)

lemma map_const_replicate: "map (\<lambda>x. c) xs = replicate (length xs) c"
  by (induction xs) simp_all

lemma sos_contact_ids:
  "map contact_id (alertsToCreate rt req incident (Some cs)) = map (\<lambda>c. Some (ec_id c)) cs @ [None]"
  by (simp add: alertsToCreate_Some comp_def)

lemma sos_police_flags:
  "map sent_to_police (alertsToCreate rt req incident (Some cs)) = replicate (length cs) False @ [True]"
  by (simp add: alertsToCreate_Some comp_def map_const_replicate)

lemma sos_incident_ids:
  "map incident_id (alertsToCreate rt req incident (Some cs))
     = replicate (length cs) (inc_id incident) @ [inc_id incident]"
  by (simp add: alertsToCreate_Some comp_def map_const_replicate)

lemma sos_latitudes:
  "map al_latitude (alertsToCreate rt req incident (Some cs))
     = replicate (length cs) (inc_latitude (sos_incident req)) @ [inc_latitude (sos_incident req)]"
  by (simp add: alertsToCreate_Some comp_def map_const_replicate sos_incident_def)

lemma sos_longitudes:
  "map al_longitude (alertsToCreate rt req incident (Some cs))
     = replicate (length cs) (inc_longitude (sos_incident req)) @ [inc_longitude (sos_incident req)]"
  by (simp add: alertsToCreate_Some comp_def map_const_replicate sos_incident_def)

lemma sos_single_batch:
  assumes "incidents_insert store (sos_incident req) = Inr incident"
    and "emergency_contacts_select store (sos_userId req) = Inr cs"
  shows "snd (send_sos_alert rt store req)
           = [InsertIncident (sos_incident req), InsertAlerts (alertsToCreate rt req incident (Some cs))]"
  using assms by (simp add: send_sos_alert_def Let_def)

lemma sos_single_batch_no_contacts:
  assumes "incidents_insert store (sos_incident req) = Inr incident"
    and "emergency_contacts_select store (sos_userId req) = Inl e"
  shows "snd (send_sos_alert rt store req)
           = [InsertIncident (sos_incident req), InsertAlerts (alertsToCreate rt req incident (Some []))]"
  using assms by (simp add: send_sos_alert_def Let_def alertsToCreate_None)

lemma auto_contact_ids:
  "map contact_id (auto_alertsToCreate rt rq profile hr incident cs) = map (\<lambda>c. Some (ec_id c)) cs"
  by (simp add: auto_alertsToCreate_def comp_def)

lemma auto_police_flags:
  "map sent_to_police (auto_alertsToCreate rt rq profile hr incident cs) = replicate (length cs) False"
  by (simp add: auto_alertsToCreate_def comp_def map_const_replicate)

lemma auto_latitudes:
  "map al_latitude (auto_alertsToCreate rt rq profile hr incident cs)
     = replicate (length cs) (inc_latitude (auto_incident rq uid hr))"
  by (simp add: auto_alertsToCreate_def comp_def map_const_replicate auto_incident_def)

lemma auto_longitudes:
  "map al_longitude (auto_alertsToCreate rt rq profile hr incident cs)
     = replicate (length cs) (inc_longitude (auto_incident rq uid hr))"
  by (simp add: auto_alertsToCreate_def comp_def map_const_replicate auto_incident_def)

text \<open>The batches that the automatic alert writes: none, or the one batch of the contacts.\<close>

lemma auto_alert_batches:
  "alert_batches (auto_alert rt store rq hr) = [] \<or>
   (\<exists>uid incident cs. userId rq = Some uid
      \<and> incidents_insert store (auto_incident rq uid hr) = Inr incident
      \<and> emergency_contacts_select store uid = Inr cs
      \<and> alert_batches (auto_alert rt store rq hr)
          = [auto_alertsToCreate rt rq (profiles_select store uid) hr incident cs])"
  by (auto simp: auto_alert_def Let_def split: option.splits sum.splits)

lemma example_contact_id [simp]: "ec_id (example_contact i) = i"
  by (simp add: example_contact_def)

lemma example_sos_fields [simp]:
  "sos_userId example_sos = ''u1''"
  "sos_latitude example_sos = 0"
  "sos_longitude example_sos = 0"
  by (simp_all add: example_sos_def)

lemma auto_alert_fires:
  assumes "userId rq = Some uid" and "uid \<noteq> []" and "inZone hr" and "level hr = Emergency"
    and "user_preferences_select store uid = Some p" and "auto_alert_on_risk_zone p = Some True"
    and "incidents_insert store (auto_incident rq uid hr) = Inr incident"
    and "emergency_contacts_select store uid = Inr cs" and "cs \<noteq> []"
  shows "auto_alert rt store rq hr =
     [InsertIncident (auto_incident rq uid hr),
      InsertAlerts (auto_alertsToCreate rt rq (profiles_select store uid) hr incident cs)]"
  using assms by (simp add: auto_alert_def Let_def)

lemma auto_alert_fires_no_contacts:
  assumes "userId rq = Some uid" and "uid \<noteq> []" and "inZone hr" and "level hr = Emergency"
    and "user_preferences_select store uid = Some p" and "auto_alert_on_risk_zone p = Some True"
    and "emergency_contacts_select store uid = Inl e \<or> emergency_contacts_select store uid = Inr []"
  shows "auto_alert rt store rq hr = [InsertIncident (auto_incident rq uid hr)]"
  using assms by (auto simp: auto_alert_def Let_def split: sum.splits)

lemma check_risk_zone_writes:
  assumes "risk_zones_select store = Inr riskZones"
  shows "snd (check_risk_zone rt store rq) =
     auto_alert rt store rq
       (server_evaluate (getHours rt) (req_latitude rq) (req_longitude rq)
          (case riskZones of None \<Rightarrow> [] | Some zs \<Rightarrow> zs))"
  by (simp add: check_risk_zone_ok [OF assms])

lemma check_risk_zone_fires:
  assumes "risk_zones_select store = Inr riskZones"
    and "hr = server_evaluate (getHours rt) (req_latitude rq) (req_longitude rq)
               (case riskZones of None \<Rightarrow> [] | Some zs \<Rightarrow> zs)"
    and "userId rq = Some uid" and "uid \<noteq> []" and "inZone hr" and "level hr = Emergency"
    and "user_preferences_select store uid = Some p" and "auto_alert_on_risk_zone p = Some True"
    and "incidents_insert store (auto_incident rq uid hr) = Inr incident"
    and "emergency_contacts_select store uid = Inr cs" and "cs \<noteq> []"
  shows "snd (check_risk_zone rt store rq) =
     [InsertIncident (auto_incident rq uid hr),
      InsertAlerts (auto_alertsToCreate rt rq (profiles_select store uid) hr incident cs)]"
  using auto_alert_fires [OF assms(3-11), of rt] assms(2)
  by (simp add: check_risk_zone_writes [OF assms(1)])

lemma check_risk_zone_fires_no_contacts:
  assumes "risk_zones_select store = Inr riskZones"
    and "hr = server_evaluate (getHours rt) (req_latitude rq) (req_longitude rq)
               (case riskZones of None \<Rightarrow> [] | Some zs \<Rightarrow> zs)"
    and "userId rq = Some uid" and "uid \<noteq> []" and "inZone hr" and "level hr = Emergency"
    and "user_preferences_select store uid = Some p" and "auto_alert_on_risk_zone p = Some True"
    and "emergency_contacts_select store uid = Inl e \<or> emergency_contacts_select store uid = Inr []"
  shows "snd (check_risk_zone rt store rq) = [InsertIncident (auto_incident rq uid hr)]"
  using auto_alert_fires_no_contacts [OF assms(3-9), of rt] assms(2)
  by (simp add: check_risk_zone_writes [OF assms(1)])

lemma evaluate_night_example:
  "0 < v \<Longrightarrow>
   server_evaluate 20 0 0 [example_zone 0 s l (Some [''night'' \<mapsto> v])] =
     \<lparr>level = l, score = v,
      zone = Some (example_zone 0 s l (Some [''night'' \<mapsto> v])), inZone = True\<rparr>"
  by (simp add: server_evaluate_def initialRisk_def server_step_inside [OF inside_example]
      timeRisk_def js_or_def timeOfDay_def)

lemma send_sos_alert_ok:
  assumes "incidents_insert store (sos_incident req) = Inr incident"
  shows "send_sos_alert rt store req =
     (Ok200 \<lparr>success = True, incidentId = inc_id incident,
              alertsSent = length (alertsToCreate rt req incident
                (case emergency_contacts_select store (sos_userId req) of
                   Inl x \<Rightarrow> None | Inr cs \<Rightarrow> Some cs)),
              sos_message = ''Emergency alerts dispatched successfully''\<rparr>,
      [InsertIncident (sos_incident req),
       InsertAlerts (alertsToCreate rt req incident
         (case emergency_contacts_select store (sos_userId req) of
            Inl x \<Rightarrow> None | Inr cs \<Rightarrow> Some cs))])"
  using assms by (simp add: send_sos_alert_def Let_def)

lemma send_sos_alert_failed:
  "incidents_insert store (sos_incident req) = Inl e \<Longrightarrow>
   send_sos_alert rt store req = (Error500 e, [InsertIncident (sos_incident req)])"
  by (simp add: send_sos_alert_def)

lemma send_sos_alert_any_answer:
  "send_sos_alert rt (store\<lparr>alerts_insert := g\<rparr>) req = send_sos_alert rt store req"
  by (cases "incidents_insert store (sos_incident req)") (simp_all add: send_sos_alert_def Let_def)

lemma check_risk_zone_any_answer:
  "fst (check_risk_zone rt (store\<lparr>incidents_insert := f, alerts_insert := g\<rparr>) rq)
     = fst (check_risk_zone rt store rq)"
  by (cases "risk_zones_select store") (simp_all add: check_risk_zone_def Let_def)

section \<open>Claims on the two evaluators\<close>

text \<open>
  C1. The claim says that the evaluator returns the fold of the specification, whose
  containment case takes the time-weighted score of the zone: the override of the bucket when
  it is present. At 20 h, for a zone that contains the point, with the level at_risk, the base
  score 0.7 and the night override 0, the fold stays at the safe default, since the weighted
  score 0 is not greater than the running score 0. The loop of the endpoint returns at_risk
  with the score 0.7 and that zone, inside, and the client returns the same level, score and
  zone: \<^verbatim>\<open>0 || zone.risk_score\<close> is the base score, as in C4. For a zone with the base score
  0.5 and the night override 0.9 the loop and the fold agree, on the score 0.9.
\<close>
theorem fold_differs_at_zero_override:
  "server_evaluate 20 0 0 [example_zone 0 0.7 At_risk (Some [''night'' \<mapsto> 0])]
     = \<lparr>level = At_risk, score = 0.7,
        zone = Some (example_zone 0 0.7 At_risk (Some [''night'' \<mapsto> 0])), inZone = True\<rparr>
   \<and> checkRiskAtLocation 20 [example_zone 0 0.7 At_risk (Some [''night'' \<mapsto> 0])] 0 0
     = Inr \<lparr>level = At_risk, score = 0.7,
            zone = Some (example_zone 0 0.7 At_risk (Some [''night'' \<mapsto> 0]))\<rparr>
   \<and> spec_evaluate (spec_weighted_score 20)
       (\<lambda>z. getDistanceInMeters 0 0 (latitude z) (longitude z))
       [example_zone 0 0.7 At_risk (Some [''night'' \<mapsto> 0])]
     = \<lparr>level = Safe, score = 0, zone = None, inZone = False\<rparr>
   \<and> server_evaluate 20 0 0 [example_zone 0 0.5 Emergency (Some [''night'' \<mapsto> 0.9])]
     = spec_evaluate (spec_weighted_score 20)
         (\<lambda>z. getDistanceInMeters 0 0 (latitude z) (longitude z))
         [example_zone 0 0.5 Emergency (Some [''night'' \<mapsto> 0.9])]
   \<and> score (server_evaluate 20 0 0 [example_zone 0 0.5 Emergency (Some [''night'' \<mapsto> 0.9])]) = 0.9"
  by (simp add: server_evaluate_def initialRisk_def server_step_inside [OF inside_example]
      checkRiskAtLocation_def client_step_inside [OF client_inside_example]
      spec_evaluate_def spec_default_def spec_step_def distance_same_point
      timeRisk_def js_or_def timeOfDay_def spec_weighted_score_def spec_bucket_def)




text \<open>
  C3. The claim says that the two evaluators give identical results on identical inputs. For a
  row whose column \<^verbatim>\<open>time_of_day_risk\<close> is null and whose zone contains the point, the
  client reads \<^verbatim>\<open>zone.time_of_day_risk[timeOfDay]\<close> and raises a TypeError, while the
  endpoint reads \<^verbatim>\<open>zone.time_of_day_risk?.[timeOfDay]\<close> and returns at_risk with the base
  score 0.7 and that zone.
\<close>
theorem client_throws_on_null_mapping:
  "time_of_day_risk (example_zone 0 0.7 At_risk None) = None
   \<and> checkRiskAtLocation 12 [example_zone 0 0.7 At_risk None] 0 0 = Inl TypeError
   \<and> server_evaluate 12 0 0 [example_zone 0 0.7 At_risk None]
     = \<lparr>level = At_risk, score = 0.7, zone = Some (example_zone 0 0.7 At_risk None),
        inZone = True\<rparr>"
  by (simp add: server_evaluate_def initialRisk_def server_step_inside [OF inside_example]
      checkRiskAtLocation_def client_step_inside [OF client_inside_example]
      timeRisk_def js_or_def)

text \<open>
  C4. The claim says that the time-weighted score is the override of the bucket whenever the
  override is present, an override of 0 included. At 20 h the bucket is night; for a zone with
  the base score 0.7 and the night override 0, \<^verbatim>\<open>0 || zone.risk_score\<close> is the base score:
  both evaluators resolve 0.7 where the weighting of the specification gives 0, and a point
  inside that zone is evaluated as at_risk with the score 0.7.
\<close>
theorem zero_override_replaced_by_base:
  "timeOfDay 20 = ''night''
   \<and> time_of_day_risk (example_zone 0 0.7 At_risk (Some [''night'' \<mapsto> 0]))
       = Some [''night'' \<mapsto> 0]
   \<and> [''night'' \<mapsto> (0::real)] (timeOfDay 20) = Some 0
   \<and> timeRisk 20 (example_zone 0 0.7 At_risk (Some [''night'' \<mapsto> 0])) = 0.7
   \<and> client_timeRisk 20 (example_zone 0 0.7 At_risk (Some [''night'' \<mapsto> 0])) = Inr 0.7
   \<and> spec_weighted_score 20 (example_zone 0 0.7 At_risk (Some [''night'' \<mapsto> 0])) = 0
   \<and> score (server_evaluate 20 0 0 [example_zone 0 0.7 At_risk (Some [''night'' \<mapsto> 0])]) = 0.7
   \<and> level (server_evaluate 20 0 0 [example_zone 0 0.7 At_risk (Some [''night'' \<mapsto> 0])]) = At_risk
   \<and> checkRiskAtLocation 20 [example_zone 0 0.7 At_risk (Some [''night'' \<mapsto> 0])] 0 0
       = Inr \<lparr>level = At_risk, score = 0.7,
              zone = Some (example_zone 0 0.7 At_risk (Some [''night'' \<mapsto> 0]))\<rparr>"
  by (simp add: server_evaluate_def initialRisk_def server_step_inside [OF inside_example]
      checkRiskAtLocation_def client_step_inside [OF client_inside_example]
      timeRisk_def client_timeRisk_def js_or_def timeOfDay_def
      spec_weighted_score_def spec_bucket_def)

section \<open>Claims on the endpoints\<close>

text \<open>
  C5. For every evaluation that the endpoint handles (the zones have been fetched), the
  handler issues the insert of an automatic-alert incident if and only if the result is inside
  a zone, its level is emergency and the stored preference \<^verbatim>\<open>auto_alert_on_risk_zone\<close> of
  the user of the request is true; so making any one of the three false suppresses it. When
  no incident is created the handler writes nothing and still answers with the evaluation.
  The store holds no preferences under the empty user identifier (user identifiers are
  UUIDs), which the handler treats as no user.
\<close>
theorem auto_alert_gate:
  assumes "risk_zones_select store = Inr riskZones"
    and "user_preferences_select store [] = None"
  shows "case check_risk_zone rt store req of
           (Ok200 body, ws) \<Rightarrow>
             (incident_created ws \<longleftrightarrow>
                inRiskZone body \<and> riskLevel body = Emergency \<and> stored_preference store req)
             \<and> (\<not> incident_created ws \<longrightarrow> ws = [])
         | (Error500 e, ws) \<Rightarrow> False"
  using auto_alert_created [OF assms(2)] auto_alert_noop
  by (simp add: check_risk_zone_ok [OF assms(1)])

theorem auto_alert_gate_witness:
  "incident_created (snd (check_risk_zone (example_runtime 12)
       (example_store [example_zone 0 0.9 Emergency (Some Map.empty)] True False)
       (example_request (Some ''u1''))))
   \<and> snd (check_risk_zone (example_runtime 12)
       (example_store [example_zone 0 0.9 Emergency (Some Map.empty)] False False)
       (example_request (Some ''u1''))) = []
   \<and> snd (check_risk_zone (example_runtime 12)
       (example_store [example_zone 0 0.9 At_risk (Some Map.empty)] True False)
       (example_request (Some ''u1''))) = []
   \<and> snd (check_risk_zone (example_runtime 12)
       (example_store [example_zone (1/100) 0.9 Emergency (Some Map.empty)] True False)
       (example_request (Some ''u1''))) = []"
proof -
  let ?rt = "example_runtime 12" and ?rq = "example_request (Some ''u1'')"
  have g: "case check_risk_zone ?rt (example_store zs pref False) ?rq of
           (Ok200 body, ws) \<Rightarrow>
             (incident_created ws \<longleftrightarrow>
                inRiskZone body \<and> riskLevel body = Emergency
                \<and> stored_preference (example_store zs pref False) ?rq)
             \<and> (\<not> incident_created ws \<longrightarrow> ws = [])
         | (Error500 e, ws) \<Rightarrow> False" for zs pref
    by (rule auto_alert_gate) simp_all
  have p: "stored_preference (example_store zs pref False) ?rq = pref" for zs pref
    by (simp add: stored_preference_def)
  have 1: "incident_created (snd (check_risk_zone ?rt
       (example_store [example_zone 0 0.9 Emergency (Some Map.empty)] True False) ?rq))"
    using g [of "[example_zone 0 0.9 Emergency (Some Map.empty)]" True]
    by (simp add: check_risk_zone_ok [of _ "Some [example_zone 0 0.9 Emergency (Some Map.empty)]"]
        evaluate_inside_example p)
  have 2: "snd (check_risk_zone ?rt
       (example_store [example_zone 0 0.9 Emergency (Some Map.empty)] False False) ?rq) = []"
    using g [of "[example_zone 0 0.9 Emergency (Some Map.empty)]" False]
    by (simp add: check_risk_zone_ok [of _ "Some [example_zone 0 0.9 Emergency (Some Map.empty)]"]
        evaluate_inside_example p)
  have 3: "snd (check_risk_zone ?rt
       (example_store [example_zone 0 0.9 At_risk (Some Map.empty)] True False) ?rq) = []"
    using g [of "[example_zone 0 0.9 At_risk (Some Map.empty)]" True]
    by (simp add: check_risk_zone_ok [of _ "Some [example_zone 0 0.9 At_risk (Some Map.empty)]"]
        evaluate_inside_example p)
  have 4: "snd (check_risk_zone ?rt
       (example_store [example_zone (1/100) 0.9 Emergency (Some Map.empty)] True False) ?rq) = []"
    using g [of "[example_zone (1/100) 0.9 Emergency (Some Map.empty)]" True]
    by (simp add: check_risk_zone_ok [of _ "Some [example_zone (1/100) 0.9 Emergency (Some Map.empty)]"]
        evaluate_approaching_example p)
  from 1 2 3 4 show ?thesis by (intro conjI)
qed

text \<open>
  C6. For every SOS incident and every list of contacts, \<^verbatim>\<open>alertsToCreate\<close> holds one
  alert for each contact, in order, then one alert for the authorities with no contact and
  \<^verbatim>\<open>sent_to_police\<close> true; all of them carry the identifier of the incident and its
  location, and the handler writes them in one batch after the incident (when the query of
  the contacts fails the batch is the alert for the authorities alone). An automatic alert for
  a risk zone holds one alert for each contact and none for the authorities, with the
  identifier and the location of its incident. When the automatic alert fires, the incident
  is stored and the user has contacts, the handler check-risk-zone writes the incident and
  then that one batch; when the query of the contacts fails or gives no contact it writes the
  incident alone. In every case it writes at most one batch, which is the batch of the
  contacts.
\<close>
theorem alert_fan_out:
  "map contact_id (alertsToCreate rt req incident (Some cs)) = map (\<lambda>c. Some (ec_id c)) cs @ [None]
   \<and> map sent_to_police (alertsToCreate rt req incident (Some cs))
       = replicate (length cs) False @ [True]
   \<and> map incident_id (alertsToCreate rt req incident (Some cs))
       = replicate (length cs) (inc_id incident) @ [inc_id incident]
   \<and> map al_latitude (alertsToCreate rt req incident (Some cs))
       = replicate (length cs) (inc_latitude (sos_incident req)) @ [inc_latitude (sos_incident req)]
   \<and> map al_longitude (alertsToCreate rt req incident (Some cs))
       = replicate (length cs) (inc_longitude (sos_incident req)) @ [inc_longitude (sos_incident req)]
   \<and> (incidents_insert store (sos_incident req) = Inr incident
        \<and> emergency_contacts_select store (sos_userId req) = Inr cs
       \<longrightarrow> snd (send_sos_alert rt store req)
            = [InsertIncident (sos_incident req),
               InsertAlerts (alertsToCreate rt req incident (Some cs))])
   \<and> (incidents_insert store (sos_incident req) = Inr incident
        \<and> emergency_contacts_select store (sos_userId req) = Inl e
       \<longrightarrow> snd (send_sos_alert rt store req)
            = [InsertIncident (sos_incident req),
               InsertAlerts (alertsToCreate rt req incident (Some []))])
   \<and> map contact_id (auto_alertsToCreate rt rq profile hr incident cs) = map (\<lambda>c. Some (ec_id c)) cs
   \<and> map sent_to_police (auto_alertsToCreate rt rq profile hr incident cs)
       = replicate (length cs) False
   \<and> map incident_id (auto_alertsToCreate rt rq profile hr incident cs)
       = replicate (length cs) (inc_id incident)
   \<and> map al_latitude (auto_alertsToCreate rt rq profile hr incident cs)
       = replicate (length cs) (inc_latitude (auto_incident rq uid hr))
   \<and> map al_longitude (auto_alertsToCreate rt rq profile hr incident cs)
       = replicate (length cs) (inc_longitude (auto_incident rq uid hr))
   \<and> (risk_zones_select store = Inr riskZones
        \<and> hr = server_evaluate (getHours rt) (req_latitude rq) (req_longitude rq)
                 (case riskZones of None \<Rightarrow> [] | Some zs \<Rightarrow> zs)
        \<and> userId rq = Some uid \<and> uid \<noteq> [] \<and> inZone hr \<and> level hr = Emergency
        \<and> user_preferences_select store uid = Some p \<and> auto_alert_on_risk_zone p = Some True
        \<and> incidents_insert store (auto_incident rq uid hr) = Inr incident
        \<and> emergency_contacts_select store uid = Inr cs \<and> cs \<noteq> []
       \<longrightarrow> snd (check_risk_zone rt store rq)
            = [InsertIncident (auto_incident rq uid hr),
               InsertAlerts (auto_alertsToCreate rt rq (profiles_select store uid) hr incident cs)])
   \<and> (risk_zones_select store = Inr riskZones
        \<and> hr = server_evaluate (getHours rt) (req_latitude rq) (req_longitude rq)
                 (case riskZones of None \<Rightarrow> [] | Some zs \<Rightarrow> zs)
        \<and> userId rq = Some uid \<and> uid \<noteq> [] \<and> inZone hr \<and> level hr = Emergency
        \<and> user_preferences_select store uid = Some p \<and> auto_alert_on_risk_zone p = Some True
        \<and> (emergency_contacts_select store uid = Inl e \<or> emergency_contacts_select store uid = Inr [])
       \<longrightarrow> snd (check_risk_zone rt store rq) = [InsertIncident (auto_incident rq uid hr)])
   \<and> (alert_batches (auto_alert rt store rq hr) = [] \<or>
       (\<exists>uid incident cs. userId rq = Some uid
          \<and> incidents_insert store (auto_incident rq uid hr) = Inr incident
          \<and> emergency_contacts_select store uid = Inr cs
          \<and> alert_batches (auto_alert rt store rq hr)
              = [auto_alertsToCreate rt rq (profiles_select store uid) hr incident cs]))"
proof (intro conjI impI)
  show "map contact_id (alertsToCreate rt req incident (Some cs))
      = map (\<lambda>c. Some (ec_id c)) cs @ [None]"
    by (rule sos_contact_ids)
  show "map sent_to_police (alertsToCreate rt req incident (Some cs))
      = replicate (length cs) False @ [True]"
    by (rule sos_police_flags)
  show "map incident_id (alertsToCreate rt req incident (Some cs))
      = replicate (length cs) (inc_id incident) @ [inc_id incident]"
    by (rule sos_incident_ids)
  show "map al_latitude (alertsToCreate rt req incident (Some cs))
      = replicate (length cs) (inc_latitude (sos_incident req)) @ [inc_latitude (sos_incident req)]"
    by (rule sos_latitudes)
  show "map al_longitude (alertsToCreate rt req incident (Some cs))
      = replicate (length cs) (inc_longitude (sos_incident req)) @ [inc_longitude (sos_incident req)]"
    by (rule sos_longitudes)
  show "map contact_id (auto_alertsToCreate rt rq profile hr incident cs)
      = map (\<lambda>c. Some (ec_id c)) cs"
    by (rule auto_contact_ids)
  show "map sent_to_police (auto_alertsToCreate rt rq profile hr incident cs)
      = replicate (length cs) False"
    by (rule auto_police_flags)
  show "map incident_id (auto_alertsToCreate rt rq profile hr incident cs)
      = replicate (length cs) (inc_id incident)"
    by (simp add: auto_alertsToCreate_def comp_def map_const_replicate)
  show "map al_latitude (auto_alertsToCreate rt rq profile hr incident cs)
      = replicate (length cs) (inc_latitude (auto_incident rq uid hr))"
    by (rule auto_latitudes)
  show "map al_longitude (auto_alertsToCreate rt rq profile hr incident cs)
      = replicate (length cs) (inc_longitude (auto_incident rq uid hr))"
    by (rule auto_longitudes)
  show "alert_batches (auto_alert rt store rq hr) = [] \<or>
       (\<exists>uid incident cs. userId rq = Some uid
          \<and> incidents_insert store (auto_incident rq uid hr) = Inr incident
          \<and> emergency_contacts_select store uid = Inr cs
          \<and> alert_batches (auto_alert rt store rq hr)
              = [auto_alertsToCreate rt rq (profiles_select store uid) hr incident cs])"
    by (rule auto_alert_batches)
next
  assume "incidents_insert store (sos_incident req) = Inr incident
        \<and> emergency_contacts_select store (sos_userId req) = Inr cs"
  then show "snd (send_sos_alert rt store req)
            = [InsertIncident (sos_incident req),
               InsertAlerts (alertsToCreate rt req incident (Some cs))]"
    by (intro sos_single_batch) simp_all
next
  assume "incidents_insert store (sos_incident req) = Inr incident
        \<and> emergency_contacts_select store (sos_userId req) = Inl e"
  then show "snd (send_sos_alert rt store req)
            = [InsertIncident (sos_incident req),
               InsertAlerts (alertsToCreate rt req incident (Some []))]"
    by (intro sos_single_batch_no_contacts [where e = e]) simp_all
next
  assume "risk_zones_select store = Inr riskZones
        \<and> hr = server_evaluate (getHours rt) (req_latitude rq) (req_longitude rq)
                 (case riskZones of None \<Rightarrow> [] | Some zs \<Rightarrow> zs)
        \<and> userId rq = Some uid \<and> uid \<noteq> [] \<and> inZone hr \<and> level hr = Emergency
        \<and> user_preferences_select store uid = Some p \<and> auto_alert_on_risk_zone p = Some True
        \<and> incidents_insert store (auto_incident rq uid hr) = Inr incident
        \<and> emergency_contacts_select store uid = Inr cs \<and> cs \<noteq> []"
  then show "snd (check_risk_zone rt store rq)
            = [InsertIncident (auto_incident rq uid hr),
               InsertAlerts (auto_alertsToCreate rt rq (profiles_select store uid) hr incident cs)]"
    by - (rule check_risk_zone_fires [where riskZones = riskZones and p = p],
        (elim conjE, assumption)+)
next
  assume "risk_zones_select store = Inr riskZones
        \<and> hr = server_evaluate (getHours rt) (req_latitude rq) (req_longitude rq)
                 (case riskZones of None \<Rightarrow> [] | Some zs \<Rightarrow> zs)
        \<and> userId rq = Some uid \<and> uid \<noteq> [] \<and> inZone hr \<and> level hr = Emergency
        \<and> user_preferences_select store uid = Some p \<and> auto_alert_on_risk_zone p = Some True
        \<and> (emergency_contacts_select store uid = Inl e \<or> emergency_contacts_select store uid = Inr [])"
  then show "snd (check_risk_zone rt store rq) = [InsertIncident (auto_incident rq uid hr)]"
    by - (rule check_risk_zone_fires_no_contacts [where riskZones = riskZones and p = p and e = e],
        (elim conjE, assumption)+)
qed

theorem alert_fan_out_witness:
  "map contact_id (concat (alert_batches (snd (send_sos_alert (example_runtime 12)
       (example_store [] True False) example_sos)))) = [Some ''c1'', Some ''c2'', None]
   \<and> map sent_to_police (concat (alert_batches (snd (send_sos_alert (example_runtime 12)
       (example_store [] True False) example_sos)))) = [False, False, True]
   \<and> length (alert_batches (snd (send_sos_alert (example_runtime 12)
       (example_store [] True False) example_sos))) = 1
   \<and> map contact_id (concat (alert_batches (snd (check_risk_zone (example_runtime 20)
       (example_store [example_zone 0 0.5 Emergency (Some [''night'' \<mapsto> 0.9])] True False)
       (example_request (Some ''u1'')))))) = [Some ''c1'', Some ''c2'']
   \<and> map sent_to_police (concat (alert_batches (snd (check_risk_zone (example_runtime 20)
       (example_store [example_zone 0 0.5 Emergency (Some [''night'' \<mapsto> 0.9])] True False)
       (example_request (Some ''u1'')))))) = [False, False]
   \<and> map incident_id (concat (alert_batches (snd (check_risk_zone (example_runtime 20)
       (example_store [example_zone 0 0.5 Emergency (Some [''night'' \<mapsto> 0.9])] True False)
       (example_request (Some ''u1'')))))) = [''i1'', ''i1'']
   \<and> length (alert_batches (snd (check_risk_zone (example_runtime 20)
       (example_store [example_zone 0 0.5 Emergency (Some [''night'' \<mapsto> 0.9])] True False)
       (example_request (Some ''u1''))))) = 1"
proof -
  let ?store = "example_store [] True False"
  let ?incident = "IncidentInsert.extend (sos_incident example_sos) \<lparr>inc_id = ''i1''\<rparr>"
  let ?cs = "[example_contact ''c1'', example_contact ''c2'']"
  note th = alert_fan_out [of "example_runtime 12" example_sos ?incident ?cs ?store
      "PostgrestError ''denied''" "example_request None" None initialRisk "''u1''" None
      "\<lparr>auto_alert_on_risk_zone = Some True\<rparr>"]
  have "incidents_insert ?store (sos_incident example_sos) = Inr ?incident
        \<and> emergency_contacts_select ?store (sos_userId example_sos) = Inr ?cs"
    by simp
  with th have w: "snd (send_sos_alert (example_runtime 12) ?store example_sos)
      = [InsertIncident (sos_incident example_sos),
         InsertAlerts (alertsToCreate (example_runtime 12) example_sos ?incident (Some ?cs))]"
    by blast
  from th have c: "map contact_id (alertsToCreate (example_runtime 12) example_sos ?incident (Some ?cs))
      = map (\<lambda>c. Some (ec_id c)) ?cs @ [None]"
    by (rule conjunct1)
  from th have p: "map sent_to_police (alertsToCreate (example_runtime 12) example_sos ?incident (Some ?cs))
      = replicate (length ?cs) False @ [True]"
    by (rule conjunct2 [THEN conjunct1])
  let ?z = "example_zone 0 0.5 Emergency (Some [''night'' \<mapsto> 0.9])"
  let ?store2 = "example_store [?z] True False"
  let ?rq = "example_request (Some ''u1'')"
  let ?hr = "\<lparr>level = Emergency, score = 0.9, zone = Some ?z, inZone = True\<rparr>"
  let ?incident2 = "IncidentInsert.extend (auto_incident ?rq ''u1'' ?hr) \<lparr>inc_id = ''i1''\<rparr>"
  let ?batch = "auto_alertsToCreate (example_runtime 20) ?rq (profiles_select ?store2 ''u1'')
      ?hr ?incident2 ?cs"
  note th2 = alert_fan_out [of "example_runtime 20" example_sos ?incident2 ?cs ?store2
      "PostgrestError ''denied''" ?rq "profiles_select ?store2 ''u1''" ?hr "''u1''"
      "Some [?z]" "\<lparr>auto_alert_on_risk_zone = Some True\<rparr>"]
  have "risk_zones_select ?store2 = Inr (Some [?z])
        \<and> ?hr = server_evaluate (getHours (example_runtime 20)) (req_latitude ?rq) (req_longitude ?rq)
                 (case Some [?z] of None \<Rightarrow> [] | Some zs \<Rightarrow> zs)
        \<and> userId ?rq = Some ''u1'' \<and> ''u1'' \<noteq> [] \<and> inZone ?hr \<and> level ?hr = Emergency
        \<and> user_preferences_select ?store2 ''u1'' = Some \<lparr>auto_alert_on_risk_zone = Some True\<rparr>
        \<and> auto_alert_on_risk_zone \<lparr>auto_alert_on_risk_zone = Some True\<rparr> = Some True
        \<and> incidents_insert ?store2 (auto_incident ?rq ''u1'' ?hr) = Inr ?incident2
        \<and> emergency_contacts_select ?store2 ''u1'' = Inr ?cs \<and> ?cs \<noteq> []"
    by (simp add: evaluate_night_example)
  with th2 have w2: "snd (check_risk_zone (example_runtime 20) ?store2 ?rq)
      = [InsertIncident (auto_incident ?rq ''u1'' ?hr), InsertAlerts ?batch]"
    by blast
  from th2 have c2: "map contact_id ?batch = map (\<lambda>c. Some (ec_id c)) ?cs"
    by blast
  from th2 have p2: "map sent_to_police ?batch = replicate (length ?cs) False"
    by blast
  from th2 have i2: "map incident_id ?batch = replicate (length ?cs) (inc_id ?incident2)"
    by blast
  have id2: "inc_id ?incident2 = ''i1''"
    by (simp add: IncidentInsert.extend_def)
  have "map contact_id (concat (alert_batches (snd (send_sos_alert (example_runtime 12)
       ?store example_sos)))) = [Some ''c1'', Some ''c2'', None]"
    using w c by simp
  moreover have "map sent_to_police (concat (alert_batches (snd (send_sos_alert (example_runtime 12)
       ?store example_sos)))) = [False, False, True]"
    using w p by simp
  moreover have "length (alert_batches (snd (send_sos_alert (example_runtime 12)
       ?store example_sos))) = 1"
    using w by simp
  moreover have "map contact_id (concat (alert_batches (snd (check_risk_zone (example_runtime 20)
       ?store2 ?rq)))) = [Some ''c1'', Some ''c2'']"
    using w2 c2 by simp
  moreover have "map sent_to_police (concat (alert_batches (snd (check_risk_zone (example_runtime 20)
       ?store2 ?rq)))) = [False, False]"
    using w2 p2 by simp
  moreover have "map incident_id (concat (alert_batches (snd (check_risk_zone (example_runtime 20)
       ?store2 ?rq)))) = [''i1'', ''i1'']"
    using w2 i2 id2 by simp
  moreover have "length (alert_batches (snd (check_risk_zone (example_runtime 20)
       ?store2 ?rq))) = 1"
    using w2 by simp
  ultimately show ?thesis
    by (intro conjI)
qed

text \<open>
  C7, as amended. In the endpoint send-sos-alert a failed write of the incident is surfaced:
  the answer is the error response and nothing else is written. A failed write of the batch
  of alerts is not surfaced there: when the incident is stored the answer is the success
  response with the identifier of the incident and the number of alerts of the batch, and
  the handler answers and writes the same whatever the store answers to the write of the
  batch. In the endpoint check-risk-zone no failed write is surfaced: when the zones have
  been fetched the answer is the evaluation of the point over those zones, and the answer is
  the same whatever the store answers to the write of the incident and of the alerts.
\<close>
theorem write_failures:
  "(incidents_insert store (sos_incident req) = Inl e
     \<longrightarrow> send_sos_alert rt store req = (Error500 e, [InsertIncident (sos_incident req)]))
   \<and> (incidents_insert store (sos_incident req) = Inr incident
     \<longrightarrow> send_sos_alert rt store req =
          (Ok200 \<lparr>success = True, incidentId = inc_id incident,
                   alertsSent = length (alertsToCreate rt req incident
                     (case emergency_contacts_select store (sos_userId req) of
                        Inl x \<Rightarrow> None | Inr cs \<Rightarrow> Some cs)),
                   sos_message = ''Emergency alerts dispatched successfully''\<rparr>,
           [InsertIncident (sos_incident req),
            InsertAlerts (alertsToCreate rt req incident
              (case emergency_contacts_select store (sos_userId req) of
                 Inl x \<Rightarrow> None | Inr cs \<Rightarrow> Some cs))]))
   \<and> send_sos_alert rt (store\<lparr>alerts_insert := g\<rparr>) req = send_sos_alert rt store req
   \<and> (risk_zones_select store = Inr riskZones
     \<longrightarrow> fst (check_risk_zone rt store rq) =
          Ok200 \<lparr>riskLevel = level (server_evaluate (getHours rt) (req_latitude rq) (req_longitude rq)
                     (case riskZones of None \<Rightarrow> [] | Some zs \<Rightarrow> zs)),
                  riskScore = score (server_evaluate (getHours rt) (req_latitude rq) (req_longitude rq)
                     (case riskZones of None \<Rightarrow> [] | Some zs \<Rightarrow> zs)),
                  inRiskZone = inZone (server_evaluate (getHours rt) (req_latitude rq) (req_longitude rq)
                     (case riskZones of None \<Rightarrow> [] | Some zs \<Rightarrow> zs)),
                  zoneName = js_or_null (zone_name (server_evaluate (getHours rt) (req_latitude rq)
                     (req_longitude rq) (case riskZones of None \<Rightarrow> [] | Some zs \<Rightarrow> zs))),
                  zoneDescription = js_or_null (zone_description (server_evaluate (getHours rt)
                     (req_latitude rq) (req_longitude rq)
                     (case riskZones of None \<Rightarrow> [] | Some zs \<Rightarrow> zs))),
                  nearbyZones = (case riskZones of None \<Rightarrow> 0 | Some zs \<Rightarrow> length zs)\<rparr>)
   \<and> fst (check_risk_zone rt (store\<lparr>incidents_insert := f, alerts_insert := g\<rparr>) rq)
       = fst (check_risk_zone rt store rq)"
proof (intro conjI impI)
  assume "incidents_insert store (sos_incident req) = Inl e"
  then show "send_sos_alert rt store req = (Error500 e, [InsertIncident (sos_incident req)])"
    by (rule send_sos_alert_failed)
next
  assume "incidents_insert store (sos_incident req) = Inr incident"
  then show "send_sos_alert rt store req =
          (Ok200 \<lparr>success = True, incidentId = inc_id incident,
                   alertsSent = length (alertsToCreate rt req incident
                     (case emergency_contacts_select store (sos_userId req) of
                        Inl x \<Rightarrow> None | Inr cs \<Rightarrow> Some cs)),
                   sos_message = ''Emergency alerts dispatched successfully''\<rparr>,
           [InsertIncident (sos_incident req),
            InsertAlerts (alertsToCreate rt req incident
              (case emergency_contacts_select store (sos_userId req) of
                 Inl x \<Rightarrow> None | Inr cs \<Rightarrow> Some cs))])"
    by (rule send_sos_alert_ok)
next
  show "send_sos_alert rt (store\<lparr>alerts_insert := g\<rparr>) req = send_sos_alert rt store req"
    by (rule send_sos_alert_any_answer)
next
  assume "risk_zones_select store = Inr riskZones"
  then show "fst (check_risk_zone rt store rq) =
          Ok200 \<lparr>riskLevel = level (server_evaluate (getHours rt) (req_latitude rq) (req_longitude rq)
                     (case riskZones of None \<Rightarrow> [] | Some zs \<Rightarrow> zs)),
                  riskScore = score (server_evaluate (getHours rt) (req_latitude rq) (req_longitude rq)
                     (case riskZones of None \<Rightarrow> [] | Some zs \<Rightarrow> zs)),
                  inRiskZone = inZone (server_evaluate (getHours rt) (req_latitude rq) (req_longitude rq)
                     (case riskZones of None \<Rightarrow> [] | Some zs \<Rightarrow> zs)),
                  zoneName = js_or_null (zone_name (server_evaluate (getHours rt) (req_latitude rq)
                     (req_longitude rq) (case riskZones of None \<Rightarrow> [] | Some zs \<Rightarrow> zs))),
                  zoneDescription = js_or_null (zone_description (server_evaluate (getHours rt)
                     (req_latitude rq) (req_longitude rq)
                     (case riskZones of None \<Rightarrow> [] | Some zs \<Rightarrow> zs))),
                  nearbyZones = (case riskZones of None \<Rightarrow> 0 | Some zs \<Rightarrow> length zs)\<rparr>"
    by (simp add: check_risk_zone_ok)
next
  show "fst (check_risk_zone rt (store\<lparr>incidents_insert := f, alerts_insert := g\<rparr>) rq)
       = fst (check_risk_zone rt store rq)"
    by (rule check_risk_zone_any_answer)
qed

theorem write_failures_witness:
  "send_sos_alert (example_runtime 12)
     ((example_store [] True False)\<lparr>incidents_insert := \<lambda>f. Inl (PostgrestError ''denied'')\<rparr>)
     example_sos
   = (Error500 (PostgrestError ''denied''), [InsertIncident (sos_incident example_sos)])
   \<and> send_sos_alert (example_runtime 12)
     ((example_store [] True False)\<lparr>alerts_insert := \<lambda>b. Some (PostgrestError ''denied'')\<rparr>)
     example_sos
   = (Ok200 \<lparr>success = True, incidentId = ''i1'', alertsSent = 3,
              sos_message = ''Emergency alerts dispatched successfully''\<rparr>,
      [InsertIncident (sos_incident example_sos),
       InsertAlerts (alertsToCreate (example_runtime 12) example_sos
         (IncidentInsert.extend (sos_incident example_sos) \<lparr>inc_id = ''i1''\<rparr>)
         (Some [example_contact ''c1'', example_contact ''c2'']))])
   \<and> check_risk_zone (example_runtime 20)
     ((example_store [example_zone 0 0.5 Emergency (Some [''night'' \<mapsto> 0.9])] True False)
        \<lparr>incidents_insert := \<lambda>f. Inl (PostgrestError ''denied''),
         alerts_insert := \<lambda>b. Some (PostgrestError ''denied'')\<rparr>)
     (example_request (Some ''u1''))
   = (Ok200 \<lparr>riskLevel = Emergency, riskScore = 0.9, inRiskZone = True,
              zoneName = Some ''Industrial Zone'', zoneDescription = Some ''High risk area'',
              nearbyZones = 1\<rparr>,
      [InsertIncident (auto_incident (example_request (Some ''u1'')) ''u1''
         \<lparr>level = Emergency, score = 0.9,
          zone = Some (example_zone 0 0.5 Emergency (Some [''night'' \<mapsto> 0.9])),
          inZone = True\<rparr>)])"
proof -
  let ?rt = "example_runtime 12"
  let ?s0 = "example_store [] True False"
  let ?s1 = "?s0\<lparr>incidents_insert := \<lambda>f. Inl (PostgrestError ''denied'')\<rparr>"
  let ?incident = "IncidentInsert.extend (sos_incident example_sos) \<lparr>inc_id = ''i1''\<rparr>"
  let ?rq0 = "example_request (Some ''u1'')"
  have 1: "send_sos_alert ?rt ?s1 example_sos
      = (Error500 (PostgrestError ''denied''), [InsertIncident (sos_incident example_sos)])"
    using write_failures [of ?s1 example_sos "PostgrestError ''denied''" ?rt]
    by simp
  note th = write_failures [of ?s0 example_sos "PostgrestError ''denied''" ?rt ?incident
      "\<lambda>b. Some (PostgrestError ''denied'')" "Some []" ?rq0
      "\<lambda>f. Inl (PostgrestError ''denied'')"]
  from th have a: "send_sos_alert ?rt (?s0\<lparr>alerts_insert := \<lambda>b. Some (PostgrestError ''denied'')\<rparr>)
      example_sos = send_sos_alert ?rt ?s0 example_sos"
    by blast
  have "incidents_insert ?s0 (sos_incident example_sos) = Inr ?incident"
    by simp
  with th have b: "send_sos_alert ?rt ?s0 example_sos =
          (Ok200 \<lparr>success = True, incidentId = inc_id ?incident,
                   alertsSent = length (alertsToCreate ?rt example_sos ?incident
                     (case emergency_contacts_select ?s0 (sos_userId example_sos) of
                        Inl x \<Rightarrow> None | Inr cs \<Rightarrow> Some cs)),
                   sos_message = ''Emergency alerts dispatched successfully''\<rparr>,
           [InsertIncident (sos_incident example_sos),
            InsertAlerts (alertsToCreate ?rt example_sos ?incident
              (case emergency_contacts_select ?s0 (sos_userId example_sos) of
                 Inl x \<Rightarrow> None | Inr cs \<Rightarrow> Some cs))])"
    by blast
  have 2: "send_sos_alert ?rt (?s0\<lparr>alerts_insert := \<lambda>b. Some (PostgrestError ''denied'')\<rparr>)
      example_sos
   = (Ok200 \<lparr>success = True, incidentId = ''i1'', alertsSent = 3,
              sos_message = ''Emergency alerts dispatched successfully''\<rparr>,
      [InsertIncident (sos_incident example_sos),
       InsertAlerts (alertsToCreate ?rt example_sos ?incident
         (Some [example_contact ''c1'', example_contact ''c2'']))])"
    using a b by (simp add: alertsToCreate_Some IncidentInsert.extend_def)
  let ?z = "example_zone 0 0.5 Emergency (Some [''night'' \<mapsto> 0.9])"
  let ?rq = "example_request (Some ''u1'')"
  let ?s2 = "example_store [?z] True False"
  let ?s3 = "?s2\<lparr>incidents_insert := \<lambda>f. Inl (PostgrestError ''denied''),
         alerts_insert := \<lambda>b. Some (PostgrestError ''denied'')\<rparr>"
  note th3 = write_failures [of ?s2 example_sos "PostgrestError ''denied''" "example_runtime 20"
      ?incident "\<lambda>b. Some (PostgrestError ''denied'')" "Some [?z]" ?rq
      "\<lambda>f. Inl (PostgrestError ''denied'')"]
  from th3 have c: "fst (check_risk_zone (example_runtime 20) ?s3 ?rq)
      = fst (check_risk_zone (example_runtime 20) ?s2 ?rq)"
    by blast
  have "risk_zones_select ?s2 = Inr (Some [?z])"
    by simp
  with th3 have d: "fst (check_risk_zone (example_runtime 20) ?s2 ?rq)
      = Ok200 \<lparr>riskLevel = Emergency, riskScore = 0.9, inRiskZone = True,
              zoneName = Some ''Industrial Zone'', zoneDescription = Some ''High risk area'',
              nearbyZones = 1\<rparr>"
    by (simp add: evaluate_night_example zone_name_def zone_description_def js_or_null_def)
  have e: "snd (check_risk_zone (example_runtime 20) ?s3 ?rq)
      = [InsertIncident (auto_incident ?rq ''u1''
           \<lparr>level = Emergency, score = 0.9, zone = Some ?z, inZone = True\<rparr>)]"
    by (simp add: check_risk_zone_writes [of _ "Some [?z]"] evaluate_night_example
        auto_alert_def Let_def)
  have 3: "check_risk_zone (example_runtime 20) ?s3 ?rq
   = (Ok200 \<lparr>riskLevel = Emergency, riskScore = 0.9, inRiskZone = True,
              zoneName = Some ''Industrial Zone'', zoneDescription = Some ''High risk area'',
              nearbyZones = 1\<rparr>,
      [InsertIncident (auto_incident ?rq ''u1''
         \<lparr>level = Emergency, score = 0.9, zone = Some ?z, inZone = True\<rparr>)])"
    using c d e by (simp add: prod_eq_iff)
  from 1 2 3 show ?thesis
    by (intro conjI)
qed

text \<open>
  C7, as stated, fails. The store answers the insert of the batch of alerts with an error, and
  the endpoint send-sos-alert returns the success response with three alerts counted as sent.
\<close>
theorem alert_write_failure_counterexample:
  "alerts_insert (example_store [] True True)
     (alertsToCreate (example_runtime 12) example_sos
        (IncidentInsert.extend (sos_incident example_sos) \<lparr>inc_id = ''i1''\<rparr>)
        (Some [example_contact ''c1'', example_contact ''c2'']))
     = Some (PostgrestError ''insert failed'')
   \<and> fst (send_sos_alert (example_runtime 12) (example_store [] True True) example_sos)
     = Ok200 \<lparr>success = True, incidentId = ''i1'', alertsSent = 3,
               sos_message = ''Emergency alerts dispatched successfully''\<rparr>"
  by (simp add: send_sos_alert_def Let_def alertsToCreate_Some IncidentInsert.extend_def)

section \<open>Claims on the selected zone and on the distance\<close>

text \<open>
  C8. When the result of an evaluation has a selected zone, that zone is a member of the zones
  given to the evaluator. The same holds of the running result after every iteration of the
  loop, which is the evaluation of the first \<open>n\<close> zones. For the client this is said of an
  evaluation that returns a result.
\<close>
theorem selected_zone_member:
  "(zone (server_evaluate hour lat lon (take n zs)) = Some z \<longrightarrow> z \<in> set zs)
   \<and> (checkRiskAtLocation hour (take n zs) lat lon = Inr r \<and> zone r = Some z \<longrightarrow> z \<in> set zs)"
proof -
  have "z \<in> set zs" if "zone (server_evaluate hour lat lon (take n zs)) = Some z"
  proof -
    from that have "zone initialRisk = Some z \<or> z \<in> set (take n zs)"
      unfolding server_evaluate_def by (rule server_loop_zone)
    then have "z \<in> set (take n zs)"
      by (simp add: initialRisk_def)
    then show ?thesis
      by (rule in_set_takeD)
  qed
  moreover have "z \<in> set zs"
    if "checkRiskAtLocation hour (take n zs) lat lon = Inr r \<and> zone r = Some z"
  proof -
    from that have "z \<in> set (take n zs)"
      by (intro checkRisk_zone [of hour "take n zs" lat lon r z]) simp_all
    then show ?thesis
      by (rule in_set_takeD)
  qed
  ultimately show ?thesis by blast
qed

theorem selected_zone_member_witness:
  "zone (server_evaluate 12 0 0 (take 1 [example_zone 0 0.7 At_risk (Some Map.empty)]))
     = Some (example_zone 0 0.7 At_risk (Some Map.empty))
   \<and> checkRiskAtLocation 12 (take 1 [example_zone 0 0.7 At_risk (Some Map.empty)]) 0 0
     = Inr \<lparr>level = At_risk, score = 0.7, zone = Some (example_zone 0 0.7 At_risk (Some Map.empty))\<rparr>
   \<and> example_zone 0 0.7 At_risk (Some Map.empty) \<in> set [example_zone 0 0.7 At_risk (Some Map.empty)]"
  using selected_zone_member [of 12 0 0 1 "[example_zone 0 0.7 At_risk (Some Map.empty)]"
      "example_zone 0 0.7 At_risk (Some Map.empty)"]
  by (simp add: server_evaluate_def initialRisk_def server_step_inside [OF inside_example]
      checkRiskAtLocation_def client_step_inside [OF client_inside_example]
      timeRisk_def js_or_def)

text \<open>
  C9. The geodesic distance is symmetric: for every pair of coordinates, the distance from A to
  B equals the distance from B to A. This holds of the distance function of the endpoint and
  of the distance function of the client.
\<close>
theorem distance_symmetric:
  "getDistanceInMeters lat1 lon1 lat2 lon2 = getDistanceInMeters lat2 lon2 lat1 lon1
   \<and> getDistanceFromLatLonInKm lat1 lon1 lat2 lon2 = getDistanceFromLatLonInKm lat2 lon2 lat1 lon1"
  using server_symm client_symm by blast

theorem distance_symmetric_witness:
  "getDistanceInMeters 0 (1/100) 0 0 = 6371000 * ((1/100) * pi / 180)
   \<and> getDistanceFromLatLonInKm 0 (1/100) 0 0 * 1000 = 6371000 * ((1/100) * pi / 180)"
proof -
  have d: "getDistanceInMeters 0 0 0 (1/100) = 6371000 * ((1/100) * pi / 180)"
    by (rule distance_on_equator) simp_all
  have "getDistanceFromLatLonInKm 0 0 0 (1/100) = 6371 * ((1/100) * pi / 180)"
    by (rule client_distance_on_equator) simp_all
  then have k: "getDistanceFromLatLonInKm 0 0 0 (1/100) * 1000 = 6371000 * ((1/100) * pi / 180)"
    by simp
  from distance_symmetric [of 0 "1/100" 0 0] d k show ?thesis
    by (simp only:)
qed

section \<open>The count of zones in the response\<close>

text \<open>
  C10. For every request that is handled successfully, the field \<^verbatim>\<open>nearbyZones\<close> of the
  response is the number of all zones fetched from the store, 0 when the fetch gives none. The
  point of the request does not occur in that number: it is not a count of the zones near the
  point.
\<close>
theorem nearbyZones_counts_all:
  assumes "risk_zones_select store = Inr riskZones"
  shows "case fst (check_risk_zone rt store req) of
           Ok200 body \<Rightarrow> nearbyZones body = (case riskZones of None \<Rightarrow> 0 | Some zs \<Rightarrow> length zs)
         | Error500 e \<Rightarrow> False"
  by (simp add: check_risk_zone_ok [OF assms])

theorem nearbyZones_counts_all_witness:
  "fst (check_risk_zone (example_runtime 12)
       (example_store [example_zone 1 0.9 Emergency (Some Map.empty)] True False)
       (example_request (Some ''u1'')))
   = Ok200 \<lparr>riskLevel = Safe, riskScore = 0, inRiskZone = False, zoneName = None,
             zoneDescription = None, nearbyZones = 1\<rparr>"
  using nearbyZones_counts_all [of "example_store [example_zone 1 0.9 Emergency (Some Map.empty)] True False"
      "Some [example_zone 1 0.9 Emergency (Some Map.empty)]" "example_runtime 12"
      "example_request (Some ''u1'')"]
  by (simp add: check_risk_zone_ok [of _ "Some [example_zone 1 0.9 Emergency (Some Map.empty)]"]
      evaluate_far_example initialRisk_def zone_name_def zone_description_def js_or_null_def)

end
